theory Spec2Isabelle
  imports Complex_Main
begin

section \<open>JavaScript values\<close>

text \<open>
  The module is configuration glue: every function under study reads and builds
  JavaScript option objects. Values are modelled as trees. An object is an association
  list in insertion order (the order \<open>Object.keys\<close> reports for non-index keys); a
  JavaScript object has each key once, so the lists that stand for objects have distinct
  keys. \<open>JFn\<close> is a function value and \<open>JNew C args\<close> the instance built by
  \<open>new C(...args)\<close>; both are opaque: the model never looks inside them.
  \<open>JUnmodelled\<close> stands for an object that the model describes no further (an array or
  an opaque object into which the merge library wrote the properties of a plain object);
  inputs never contain it.
\<close>

datatype jsval =
    JUndefined
  | JNull
  | JBool bool
  | JNum real
  | JStr string
  | JArr "jsval list"
  | JObj "(string \<times> jsval) list"
  | JFn string
  | JNew string "jsval list"
  | JUnmodelled

type_synonym jsobj = "(string \<times> jsval) list"

text \<open>\<open>Boolean(v)\<close>, and the test that \<open>if (v)\<close>, \<open>!v\<close>, \<open>a || b\<close> and \<open>a && b\<close> make.\<close>

fun truthy :: "jsval \<Rightarrow> bool" where
  "truthy JUndefined = False"
| "truthy JNull = False"
| "truthy (JBool b) = b"
| "truthy (JNum n) = (n \<noteq> 0)"
| "truthy (JStr s) = (s \<noteq> [])"
| "truthy (JArr xs) = True"
| "truthy (JObj kvs) = True"
| "truthy (JFn f) = True"
| "truthy (JNew c args) = True"
| "truthy JUnmodelled = True"

text \<open>\<open>a || b\<close> on values: the first operand when it is truthy, else the second.\<close>

definition js_or :: "jsval \<Rightarrow> jsval \<Rightarrow> jsval" where
  "js_or a b = (if truthy a then a else b)"

text \<open>\<open>obj[key]\<close> on an object: the own property, \<open>undefined\<close> when the key is absent.\<close>

definition getProp :: "jsobj \<Rightarrow> string \<Rightarrow> jsval" where
  "getProp obj key = (case map_of obj key of None \<Rightarrow> JUndefined | Some v \<Rightarrow> v)"

text \<open>\<open>key in obj\<close> and \<open>Object.keys(obj)\<close>.\<close>

definition hasProp :: "jsobj \<Rightarrow> string \<Rightarrow> bool" where
  "hasProp obj key = (key \<in> set (map fst obj))"

definition objectKeys :: "jsobj \<Rightarrow> string list" where
  "objectKeys obj = map fst obj"

text \<open>\<open>obj[key] = v\<close>: an existing key keeps its place, a new key goes last.\<close>

fun setProp :: "jsobj \<Rightarrow> string \<Rightarrow> jsval \<Rightarrow> jsobj" where
  "setProp [] key v = [(key, v)]"
| "setProp ((k, w) # obj) key v =
     (if k = key then (k, v) # obj else (k, w) # setProp obj key v)"

text \<open>\<open>delete obj[key]\<close>.\<close>

definition deleteProp :: "jsobj \<Rightarrow> string \<Rightarrow> jsobj" where
  "deleteProp obj key = filter (\<lambda>kv. fst kv \<noteq> key) obj"

subsection \<open>Strings\<close>

text \<open>
  A \<open>char\<close> is read as the UTF-16 code unit of the same number, so the strings of the
  model are those over U+0000 to U+00FF. On that range \<open>String.prototype.toLowerCase\<close>
  maps A to Z and the Latin-1 capitals (U+00C0 to U+00DE, without the multiplication
  sign U+00D7) to the letter 32 places further, and leaves every other unit alone.
\<close>

definition toLowerChar :: "char \<Rightarrow> char" where
  "toLowerChar c =
     (if (65 \<le> (of_char c :: nat) \<and> (of_char c :: nat) \<le> 90) \<or>
         (192 \<le> (of_char c :: nat) \<and> (of_char c :: nat) \<le> 222 \<and> (of_char c :: nat) \<noteq> 215)
      then char_of ((of_char c :: nat) + 32) else c)"

definition toLowerCase :: "string \<Rightarrow> string" where
  "toLowerCase s = map toLowerChar s"

text \<open>
  \<open>String.prototype.trim\<close>: white space and line terminators are removed at both ends
  (on the modelled range: tab, line feed, vertical tab, form feed, carriage return,
  space and the no-break space U+00A0).
\<close>

definition isWhiteSpace :: "char \<Rightarrow> bool" where
  "isWhiteSpace c =
     ((9 \<le> (of_char c :: nat) \<and> (of_char c :: nat) \<le> 13) \<or> (of_char c :: nat) = 32 \<or>
      (of_char c :: nat) = 160)"

definition trim :: "string \<Rightarrow> string" where
  "trim s = rev (dropWhile isWhiteSpace (rev (dropWhile isWhiteSpace s)))"

section \<open>The utility predicates (\<open>core/utils\<close>)\<close>

text \<open>
  \<open>ResolvedModuleConfiguration\<close>: the module options after the merge with the defaults.
  Flags and strings have their TypeScript types and the two integration maps are objects;
  the members that hold option objects for the libraries, or a boolean in place of one
  (\<open>lazy\<close>, \<open>tracing\<close>, \<open>publishRelease\<close>), are values.
\<close>

record module_configuration =
  lazy :: jsval
  dsn :: string
  disabled :: bool
  initialize :: bool
  runtimeConfigKey :: string
  disableClientSide :: bool
  disableServerSide :: bool
  publishRelease :: jsval
  disableServerRelease :: bool
  disableClientRelease :: bool
  logMockCalls :: bool
  sourceMapStyle :: jsval
  tracing :: jsval
  clientIntegrations :: jsobj
  serverIntegrations :: jsobj
  config :: jsval
  serverConfig :: jsval
  clientConfig :: jsval
  requestHandlerConfig :: jsval

definition boolToText :: "bool \<Rightarrow> string" where
  "boolToText v = (if v then ''enabled'' else ''disabled'')"

text \<open>
  \<open>Boolean(env && env.toLowerCase() !== 'false' && env !== '0')\<close>; \<open>None\<close> is
  \<open>undefined\<close>, and the empty string is falsy, so that \<open>&&\<close> stops at it.
\<close>

definition envToBool :: "string option \<Rightarrow> bool" where
  "envToBool env =
     (case env of
        None \<Rightarrow> False
      | Some s \<Rightarrow> s \<noteq> [] \<and> toLowerCase s \<noteq> ''false'' \<and> s \<noteq> ''0'')"

text \<open>\<open>Boolean(options.initialize && options.dsn)\<close>: a string is truthy when not empty.\<close>

definition canInitialize :: "module_configuration \<Rightarrow> bool" where
  "canInitialize options = (initialize options \<and> dsn options \<noteq> [])"

definition clientSentryEnabled :: "module_configuration \<Rightarrow> bool" where
  "clientSentryEnabled options = (\<not> disabled options \<and> \<not> disableClientSide options)"

definition serverSentryEnabled :: "module_configuration \<Rightarrow> bool" where
  "serverSentryEnabled options = (\<not> disabled options \<and> \<not> disableServerSide options)"

section \<open>The merge library (\<open>lodash.mergewith\<close>)\<close>

text \<open>
  Every merge of the module is a call of \<open>mergeWith(object, ...sources, customizer?)\<close>
  of the lodash library, which is not part of the repository. It is modelled after the
  library's \<open>baseMerge\<close>, \<open>baseMergeDeep\<close> and \<open>assignMergeValue\<close>: the sources are
  merged into the target from left to right, key by key in the order of the source.
  For one key, with \<open>objValue\<close> the target's value and \<open>srcValue\<close> the source's:
  \<^item> the customizer, when there is one, is asked first, and a result other than
    \<open>undefined\<close> is assigned as it is;
  \<^item> a source array is merged index by index into the target's array, or into a fresh
    array when the target's value is not an array;
  \<^item> a source plain object is merged recursively into the target's plain object, or
    into a fresh object when the target's value is a primitive;
  \<^item> any other source object (function, class instance) is assigned as it is;
  \<^item> a primitive is assigned, except that \<open>undefined\<close> never replaces an existing key.
  Where the library would write properties into an array, a function or a class
  instance, or copy an array-like object, the result is \<open>JUnmodelled\<close>. Property names
  are ordinary ones (not \<open>__proto__\<close> or \<open>constructor\<close>), and values are trees, so that
  the library's bookkeeping for cyclic sources never comes into play.
\<close>

type_synonym customizer = "jsval \<Rightarrow> jsval \<Rightarrow> jsval"

text \<open>The customizer's answer for a key; \<open>None\<close> as target value is an absent key.\<close>

definition customized :: "customizer option \<Rightarrow> jsval option \<Rightarrow> jsval \<Rightarrow> jsval" where
  "customized c objValue srcValue =
     (case c of
        None \<Rightarrow> JUndefined
      | Some f \<Rightarrow> f (case objValue of None \<Rightarrow> JUndefined | Some v \<Rightarrow> v) srcValue)"

text \<open>\<open>isArrayLikeObject\<close> on a plain object: it has a numeric \<open>length\<close>.\<close>

definition hasNumericLength :: "jsobj \<Rightarrow> bool" where
  "hasNumericLength obj = (case map_of obj ''length'' of Some (JNum n) \<Rightarrow> True | _ \<Rightarrow> False)"

fun baseMergeValue :: "customizer option \<Rightarrow> jsval option \<Rightarrow> jsval \<Rightarrow> jsval"
  and baseMergeFields :: "customizer option \<Rightarrow> jsobj \<Rightarrow> jsobj \<Rightarrow> jsobj"
  and baseMergeElems :: "customizer option \<Rightarrow> jsval list \<Rightarrow> jsval list \<Rightarrow> jsval list"
where
  "baseMergeValue c objValue (JArr ys) =
     (if customized c objValue (JArr ys) \<noteq> JUndefined then customized c objValue (JArr ys)
      else case objValue of
          Some (JArr xs) \<Rightarrow> JArr (baseMergeElems c xs ys)
        | Some (JObj t) \<Rightarrow> if hasNumericLength t then JUnmodelled else JArr (baseMergeElems c [] ys)
        | Some (JNew cl args) \<Rightarrow> JUnmodelled
        | Some JUnmodelled \<Rightarrow> JUnmodelled
        | _ \<Rightarrow> JArr (baseMergeElems c [] ys))"
| "baseMergeValue c objValue (JObj kvs) =
     (if customized c objValue (JObj kvs) \<noteq> JUndefined then customized c objValue (JObj kvs)
      else case objValue of
          Some (JObj t) \<Rightarrow> JObj (baseMergeFields c t kvs)
        | Some (JArr xs) \<Rightarrow> JUnmodelled
        | Some (JFn f) \<Rightarrow> JUnmodelled
        | Some (JNew cl args) \<Rightarrow> JUnmodelled
        | Some JUnmodelled \<Rightarrow> JUnmodelled
        | _ \<Rightarrow> JObj (baseMergeFields c [] kvs))"
| "baseMergeValue c objValue JUndefined =
     (if customized c objValue JUndefined \<noteq> JUndefined then customized c objValue JUndefined
      else case objValue of None \<Rightarrow> JUndefined | Some v \<Rightarrow> v)"
| "baseMergeValue c objValue srcValue =
     (if customized c objValue srcValue \<noteq> JUndefined then customized c objValue srcValue
      else srcValue)"
| "baseMergeFields c object [] = object"
| "baseMergeFields c object ((key, srcValue) # source) =
     baseMergeFields c
       (setProp object key (baseMergeValue c (map_of object key) srcValue)) source"
| "baseMergeElems c object [] = object"
| "baseMergeElems c [] (srcValue # source) =
     baseMergeValue c None srcValue # baseMergeElems c [] source"
| "baseMergeElems c (objValue # object) (srcValue # source) =
     baseMergeValue c (Some objValue) srcValue # baseMergeElems c object source"

text \<open>
  \<open>mergeWith(object, ...sources, customizer)\<close> for a plain-object target. A falsy source
  is skipped, and so is in effect a boolean or a number, which has no enumerable key.
\<close>

fun mergeSource :: "customizer option \<Rightarrow> jsval \<Rightarrow> jsval \<Rightarrow> jsval" where
  "mergeSource c (JObj object) (JObj source) = JObj (baseMergeFields c object source)"
| "mergeSource c object JUndefined = object"
| "mergeSource c object JNull = object"
| "mergeSource c object (JBool b) = object"
| "mergeSource c object (JNum n) = object"
| "mergeSource c object (JStr []) = object"
| "mergeSource c object source = JUnmodelled"

definition mergeWith :: "customizer option \<Rightarrow> jsval \<Rightarrow> jsval list \<Rightarrow> jsval" where
  "mergeWith c object sources = foldl (mergeSource c) object sources"

text \<open>\<open>merge(object, ...sources)\<close> is \<open>mergeWith\<close> called without a customizer.\<close>

definition merge :: "jsval \<Rightarrow> jsval list \<Rightarrow> jsval" where
  "merge object sources = mergeWith None object sources"

section \<open>Module setup: defaults and the merge of the user's options\<close>

text \<open>\<open>process.env\<close>: an unset variable reads as \<open>undefined\<close>.\<close>

type_synonym environment = "string \<Rightarrow> string option"

text \<open>\<open>if (Array.isArray(objValue)) { return objValue.concat(srcValue) }\<close>; \<open>concat\<close>
  appends the elements of an array argument and any other argument as one element.\<close>

fun mergeWithCustomizer :: "jsval \<Rightarrow> jsval \<Rightarrow> jsval" where
  "mergeWithCustomizer (JArr objValue) (JArr srcValue) = JArr (objValue @ srcValue)"
| "mergeWithCustomizer (JArr objValue) JUnmodelled = JUnmodelled"
| "mergeWithCustomizer (JArr objValue) srcValue = JArr (objValue @ [srcValue])"
| "mergeWithCustomizer objValue srcValue = JUndefined"

text \<open>The object literal \<open>defaults\<close> of \<open>setup\<close>; \<open>dev\<close> is \<open>this.options.dev\<close>.\<close>

definition defaults :: "environment \<Rightarrow> bool \<Rightarrow> jsobj" where
  "defaults env dev =
     [(''lazy'', JBool False),
      (''dsn'', JStr (case env ''SENTRY_DSN'' of None \<Rightarrow> [] | Some s \<Rightarrow> s)),
      (''disabled'', JBool (envToBool (env ''SENTRY_DISABLED'') \<or> False)),
      (''initialize'', JBool (envToBool (env ''SENTRY_INITIALIZE'') \<or> True)),
      (''runtimeConfigKey'', JStr ''sentry''),
      (''disableClientSide'', JBool (envToBool (env ''SENTRY_DISABLE_CLIENT_SIDE'') \<or> False)),
      (''disableServerSide'', JBool (envToBool (env ''SENTRY_DISABLE_SERVER_SIDE'') \<or> False)),
      (''publishRelease'', JBool (envToBool (env ''SENTRY_PUBLISH_RELEASE'') \<or> False)),
      (''disableServerRelease'', JBool (envToBool (env ''SENTRY_DISABLE_SERVER_RELEASE'') \<or> False)),
      (''disableClientRelease'', JBool (envToBool (env ''SENTRY_DISABLE_CLIENT_RELEASE'') \<or> False)),
      (''logMockCalls'', JBool True),
      (''sourceMapStyle'', JStr ''source-map''),
      (''tracing'', JBool False),
      (''clientIntegrations'', JObj
         [(''Dedupe'', JObj []),
          (''ExtraErrorData'', JObj []),
          (''ReportingObserver'', JObj []),
          (''RewriteFrames'', JObj []),
          (''Vue'', JObj [(''attachProps'', JBool True), (''logErrors'', JBool dev)])]),
      (''serverIntegrations'', JObj
         [(''Dedupe'', JObj []),
          (''ExtraErrorData'', JObj []),
          (''RewriteFrames'', JObj []),
          (''Transaction'', JObj [])]),
      (''config'', JObj
         [(''environment'', JStr (if dev then ''development'' else ''production''))]),
      (''serverConfig'', JObj []),
      (''clientConfig'', JObj []),
      (''requestHandlerConfig'', JObj [])]"

definition defaultsPublishRelease :: jsobj where
  "defaultsPublishRelease =
     [(''include'', JArr []),
      (''ignore'', JArr [JStr ''node_modules'', JStr ''.nuxt/dist/client/img'']),
      (''configFile'', JStr ''.sentryclirc'')]"

text \<open>
  The options that \<open>setup\<close> resolves: \<open>sentry\<close> is \<open>this.options.sentry\<close> (the top-level
  options, \<open>{}\<close> when falsy) and \<open>moduleOptions\<close> the options given with the module.
  A truthy \<open>publishRelease\<close> is then merged over \<open>defaultsPublishRelease\<close>.
\<close>

definition setupOptions :: "environment \<Rightarrow> bool \<Rightarrow> jsval \<Rightarrow> jsval \<Rightarrow> jsval" where
  "setupOptions env dev sentry moduleOptions =
     (case mergeWith (Some mergeWithCustomizer) (JObj [])
             [JObj (defaults env dev), js_or sentry (JObj []), moduleOptions] of
        JObj options \<Rightarrow>
          if truthy (getProp options ''publishRelease'')
          then JObj (setProp options ''publishRelease''
                 (mergeWith (Some mergeWithCustomizer) (JObj defaultsPublishRelease)
                    [getProp options ''publishRelease'']))
          else JObj options
      | other \<Rightarrow> other)"

section \<open>The option resolvers (\<open>core/options\<close>)\<close>

subsection \<open>The surroundings\<close>

text \<open>
  What the resolvers and hooks obtain from outside the repository: the environment
  variables, the functions that the reporting libraries export (\<open>None\<close> when the dynamic
  import is rejected), the names of the classes that \<open>@sentry/integrations\<close> exports, the
  version that the command-line tool proposes (\<open>None\<close> when loading or calling it
  throws), whether \<open>@sentry/webpack-plugin\<close> can be loaded, the \<open>release\<close> member of the
  generated release file (\<open>None\<close> when the file cannot be imported), and
  \<open>path.posix.join\<close>.
\<close>

record world =
  processEnv :: environment
  browserApi :: "string list option"
  nodeApi :: "string list option"
  integrationClasses :: "string list"
  proposeVersion :: "string option"
  webpackPluginLoads :: bool
  releaseFile :: "jsval option"
  posixJoin :: "string \<Rightarrow> string \<Rightarrow> string"

text \<open>\<open>publicRuntimeConfig\<close> of the framework is an object or a function that yields one.\<close>

datatype runtime_config = RuntimeConfigFunction | RuntimeConfigObject jsobj

text \<open>The members of \<open>moduleContainer.options\<close> that the module reads.\<close>

record nuxt_options =
  dev :: bool
  buildDir :: string
  routerBase :: jsval
  buildPublicPath :: jsval
  publicRuntimeConfig :: runtime_config

text \<open>
  What rejects the promise of a resolver or hook: the \<open>Error\<close> that the hook throws
  itself, a \<open>TypeError\<close> of the language, a rejected dynamic import. \<open>Unmodelled\<close> is no
  error of the program: it stands for an outcome that the model does not determine,
  because it would depend on the inside of an opaque object or on options that are no
  plain object.
\<close>

datatype error =
    Error string
  | TypeError
  | ImportRejected string
  | Unmodelled

text \<open>
  A call of \<open>logger.warn\<close>: the message and the further arguments. The resolvers and
  hooks take the log so far and return it extended; a result that is an error stands
  for the rejected promise alone.
\<close>

datatype log_entry = Warn string "jsval list"

subsection \<open>Property access on values\<close>

text \<open>
  \<open>propOf\<close> reads a member off a result: the own property of a plain object,
  \<open>undefined\<close> on a primitive or an array, not determined on an opaque object.
\<close>

fun propOf :: "jsval \<Rightarrow> string \<Rightarrow> jsval" where
  "propOf (JObj obj) key = getProp obj key"
| "propOf (JFn f) key = JUnmodelled"
| "propOf (JNew c args) key = JUnmodelled"
| "propOf JUnmodelled key = JUnmodelled"
| "propOf v key = JUndefined"

text \<open>
  \<open>v.key\<close> as the program evaluates it, for a name that no built-in prototype defines:
  on \<open>undefined\<close> and \<open>null\<close> the access throws; a primitive and an array have no such
  property.
\<close>

fun readProp :: "jsval \<Rightarrow> string \<Rightarrow> error + jsval" where
  "readProp JUndefined key = Inl TypeError"
| "readProp JNull key = Inl TypeError"
| "readProp (JObj obj) key = Inr (getProp obj key)"
| "readProp (JFn f) key = Inl Unmodelled"
| "readProp (JNew c args) key = Inl Unmodelled"
| "readProp JUnmodelled key = Inl Unmodelled"
| "readProp v key = Inr JUndefined"

text \<open>
  \<open>v.key = w\<close>. The files are modules, hence strict code, where creating a property on
  a primitive throws, as it does on \<open>undefined\<close> and \<open>null\<close>. An array or an opaque
  object that receives a property is beyond the model.
\<close>

fun writeProp :: "jsval \<Rightarrow> string \<Rightarrow> jsval \<Rightarrow> error + jsval" where
  "writeProp (JObj obj) key w = Inr (JObj (setProp obj key w))"
| "writeProp (JArr xs) key w = Inl Unmodelled"
| "writeProp (JFn f) key w = Inl Unmodelled"
| "writeProp (JNew c args) key w = Inl Unmodelled"
| "writeProp JUnmodelled key w = Inl Unmodelled"
| "writeProp v key w = Inl TypeError"

text \<open>
  \<open>key in v\<close>: the operator throws when its right operand is no object; an array has no
  property of an ordinary name.
\<close>

fun inOperator :: "string \<Rightarrow> jsval \<Rightarrow> error + bool" where
  "inOperator key (JObj obj) = Inr (hasProp obj key)"
| "inOperator key (JArr xs) = Inr False"
| "inOperator key (JFn f) = Inl Unmodelled"
| "inOperator key (JNew c args) = Inl Unmodelled"
| "inOperator key JUnmodelled = Inl Unmodelled"
| "inOperator key v = Inl TypeError"

subsection \<open>Constants\<close>

definition PLUGGABLE_INTEGRATIONS :: "string list" where
  "PLUGGABLE_INTEGRATIONS =
     [''CaptureConsole'', ''Debug'', ''Dedupe'', ''ExtraErrorData'', ''ReportingObserver'',
      ''RewriteFrames'', ''Vue'']"

definition BROWSER_INTEGRATIONS :: "string list" where
  "BROWSER_INTEGRATIONS =
     [''InboundFilters'', ''FunctionToString'', ''TryCatch'', ''Breadcrumbs'',
      ''GlobalHandlers'', ''LinkedErrors'', ''UserAgent'']"

definition SERVER_INTEGRATIONS :: "string list" where
  "SERVER_INTEGRATIONS =
     [''CaptureConsole'', ''Debug'', ''Dedupe'', ''ExtraErrorData'', ''RewriteFrames'',
      ''Modules'', ''Transaction'']"

text \<open>\<open>Object.keys(integrations).filter(key => integrations[key])\<close>.\<close>

definition filterDisabledIntegration :: "jsobj \<Rightarrow> string list" where
  "filterDisabledIntegration integrations =
     filter (\<lambda>key. truthy (getProp integrations key)) (objectKeys integrations)"

text \<open>
  \<open>getApiMethods(packageName)\<close>: the names of the package's exports that are functions;
  the rejected import rejects the resolver.
\<close>

definition getApiMethods :: "string \<Rightarrow> string list option \<Rightarrow> error + string list" where
  "getApiMethods packageName packageApi =
     (case packageApi of None \<Rightarrow> Inl (ImportRejected packageName) | Some apiMethods \<Rightarrow> Inr apiMethods)"

text \<open>
  \<open>resolveRelease\<close>: the test \<open>'release' in moduleOptions.config\<close> stands outside the
  \<open>try\<close> block, so its \<open>TypeError\<close> rejects the promise. Only when \<open>config\<close> has no
  \<open>release\<close> key is the command-line tool asked, and its failure is swallowed; every
  other path returns \<open>undefined\<close>.
\<close>

definition resolveRelease :: "world \<Rightarrow> module_configuration \<Rightarrow> error + jsval" where
  "resolveRelease w moduleOptions =
     (case inOperator ''release'' (config moduleOptions) of
        Inl e \<Rightarrow> Inl e
      | Inr present \<Rightarrow>
          if \<not> present
          then Inr (case proposeVersion w of None \<Rightarrow> JUndefined | Some v \<Rightarrow> JStr (trim v))
          else Inr JUndefined)"

subsection \<open>Lazy loading\<close>

definition defaultLazyOptions :: jsobj where
  "defaultLazyOptions =
     [(''injectMock'', JBool True),
      (''injectLoadHook'', JBool False),
      (''mockApiMethods'', JBool True),
      (''chunkName'', JStr ''sentry''),
      (''webpackPrefetch'', JBool False),
      (''webpackPreload'', JBool False)]"

text \<open>\<open>apiMethods.includes(method)\<close>, for the string array \<open>apiMethods\<close>.\<close>

fun apiIncludes :: "string list \<Rightarrow> jsval \<Rightarrow> bool" where
  "apiIncludes apiMethods (JStr method) = (method \<in> set apiMethods)"
| "apiIncludes apiMethods method = False"

definition notFoundWarning :: "jsval list \<Rightarrow> log_entry" where
  "notFoundWarning notfoundMethods =
     Warn (''Some specified methods to mock weren'' @ [CHR 0x27] @
           ''t found in @sentry/browser:'') [JArr notfoundMethods]"

text \<open>
  \<open>resolveLazyOptions(options, apiMethods, logger)\<close> updates \<open>options.lazy\<close> in place and
  may warn; the model returns the options and the log.
\<close>

definition resolveLazyOptions ::
  "module_configuration \<Rightarrow> string list \<Rightarrow> log_entry list \<Rightarrow> module_configuration \<times> log_entry list"
where
  "resolveLazyOptions options apiMethods logger =
     (if truthy (lazy options) then
        (case merge (JObj []) [JObj defaultLazyOptions, lazy options] of
           JObj lz \<Rightarrow>
             if \<not> truthy (getProp lz ''injectMock'')
             then (options\<lparr>lazy := JObj (setProp lz ''mockApiMethods'' (JArr []))\<rparr>, logger)
             else if getProp lz ''mockApiMethods'' = JBool True
             then (options\<lparr>lazy := JObj (setProp lz ''mockApiMethods'' (JArr (map JStr apiMethods)))\<rparr>,
                   logger)
             else (case getProp lz ''mockApiMethods'' of
                     JArr mockMethods \<Rightarrow>
                       (let found = filter (apiIncludes apiMethods) mockMethods;
                            notfoundMethods = filter (\<lambda>method. \<not> apiIncludes apiMethods method) mockMethods
                        in (options\<lparr>lazy := JObj (setProp lz ''mockApiMethods''
                                      (JArr (if JStr ''captureException'' \<in> set found then found
                                             else found @ [JStr ''captureException''])))\<rparr>,
                            if notfoundMethods \<noteq> [] then logger @ [notFoundWarning notfoundMethods]
                            else logger))
                   | other \<Rightarrow> (options\<lparr>lazy := JObj lz\<rparr>, logger))
         | unmodelled \<Rightarrow> (options\<lparr>lazy := unmodelled\<rparr>, logger))
      else (options, logger))"

subsection \<open>Tracing\<close>

definition defaultTracingOptions :: jsobj where
  "defaultTracingOptions =
     [(''tracesSampleRate'', JNum 1),
      (''vueOptions'', JObj
         [(''tracing'', JBool True),
          (''tracingOptions'', JObj
             [(''hooks'', JArr [JStr ''mount'', JStr ''update'']),
              (''timeout'', JNum 2000),
              (''trackComponents'', JBool True)])]),
      (''browserOptions'', JObj [])]"

text \<open>
  \<open>resolveTracingOptions(options)\<close> updates \<open>options.tracing\<close> and \<open>options.config\<close> in
  place. Reading \<open>options.config.tracesSampleRate\<close> throws when \<open>config\<close> is \<open>undefined\<close>
  or \<open>null\<close>, and the assignment throws when it is a primitive.
\<close>

definition resolveTracingOptions :: "module_configuration \<Rightarrow> error + module_configuration" where
  "resolveTracingOptions options =
     (if truthy (tracing options) then
        (let resolved = merge (JObj defaultTracingOptions)
                          [case tracing options of JBool b \<Rightarrow> JObj [] | given \<Rightarrow> given]
         in case readProp (config options) ''tracesSampleRate'' of
              Inl e \<Rightarrow> Inl e
            | Inr rate \<Rightarrow>
                if \<not> truthy rate
                then (case writeProp (config options) ''tracesSampleRate''
                             (propOf resolved ''tracesSampleRate'') of
                        Inl e \<Rightarrow> Inl e
                      | Inr cfg \<Rightarrow> Inr (options\<lparr>tracing := resolved, config := cfg\<rparr>))
                else Inr (options\<lparr>tracing := resolved\<rparr>))
      else Inr options)"

subsection \<open>Integration toggles\<close>

text \<open>
  The two validation loops: for every key of the integration map, in the order of
  \<open>Object.keys\<close>, a name outside the allow-list is warned about and deleted.
\<close>

definition clientIntegrationWarning :: "string \<Rightarrow> log_entry" where
  "clientIntegrationWarning name =
     Warn (''Sentry clientIntegration '' @ [CHR 0x22] @ name @ [CHR 0x22] @
           '' is not recognized and will be ignored.'') []"

definition serverIntegrationWarning :: "string \<Rightarrow> log_entry" where
  "serverIntegrationWarning name =
     Warn (''Sentry serverIntegration '' @ [CHR 0x22] @ name @ [CHR 0x22] @
           '' is not recognized and will be ignored.'') []"

fun validateClientIntegrations ::
  "string list \<Rightarrow> jsobj \<times> log_entry list \<Rightarrow> jsobj \<times> log_entry list"
where
  "validateClientIntegrations [] (integrations, logger) = (integrations, logger)"
| "validateClientIntegrations (name # names) (integrations, logger) =
     (if name \<notin> set PLUGGABLE_INTEGRATIONS \<and> name \<notin> set BROWSER_INTEGRATIONS
      then validateClientIntegrations names
             (deleteProp integrations name, logger @ [clientIntegrationWarning name])
      else validateClientIntegrations names (integrations, logger))"

fun validateServerIntegrations ::
  "string list \<Rightarrow> jsobj \<times> log_entry list \<Rightarrow> jsobj \<times> log_entry list"
where
  "validateServerIntegrations [] (integrations, logger) = (integrations, logger)"
| "validateServerIntegrations (name # names) (integrations, logger) =
     (if name \<notin> set SERVER_INTEGRATIONS
      then validateServerIntegrations names
             (deleteProp integrations name, logger @ [serverIntegrationWarning name])
      else validateServerIntegrations names (integrations, logger))"

subsection \<open>The client resolver\<close>

text \<open>The object that \<open>resolveClientOptions\<close> returns.\<close>

record client_options =
  clientPluggable :: "string list"
  clientBrowser :: "string list"
  clientDev :: bool
  clientRuntimeConfigKey :: string
  clientSideConfig :: jsval
  clientLazy :: jsval
  clientApiMethods :: "string list"
  clientLogMockCalls :: bool
  clientTracing :: jsval
  clientInitialize :: bool
  clientSideIntegrations :: jsobj

text \<open>\<open>{ ...base, ...v }\<close>: the own enumerable properties of \<open>v\<close> assigned over \<open>base\<close>.\<close>

fun spreadOver :: "jsobj \<Rightarrow> jsval \<Rightarrow> jsval" where
  "spreadOver base (JObj obj) = JObj (foldl (\<lambda>acc kv. setProp acc (fst kv) (snd kv)) base obj)"
| "spreadOver base JUndefined = JObj base"
| "spreadOver base JNull = JObj base"
| "spreadOver base (JBool b) = JObj base"
| "spreadOver base (JNum n) = JObj base"
| "spreadOver base v = JUnmodelled"

text \<open>
  \<open>resolveClientOptions\<close>. The first line, \<open>merge({}, moduleOptions)\<close>, takes a private copy
  of the options; a copy of a tree is the tree, so the model goes on with \<open>moduleOptions\<close>.
\<close>

definition resolveClientOptions ::
  "world \<Rightarrow> nuxt_options \<Rightarrow> module_configuration \<Rightarrow> log_entry list \<Rightarrow>
   error + (client_options \<times> log_entry list)"
where
  "resolveClientOptions w nuxt moduleOptions logger =
     (let options0 = moduleOptions\<lparr>clientConfig :=
              merge (JObj []) [config moduleOptions, clientConfig moduleOptions]\<rparr>
      in case getApiMethods ''@sentry/browser'' (browserApi w) of
           Inl e \<Rightarrow> Inl e
         | Inr apiMethods \<Rightarrow>
             (let (options1, logger1) = resolveLazyOptions options0 apiMethods logger
              in case resolveTracingOptions options1 of
                   Inl e \<Rightarrow> Inl e
                 | Inr options2 \<Rightarrow>
                     (let (integrations, logger2) =
                             validateClientIntegrations (objectKeys (clientIntegrations options2))
                               (clientIntegrations options2, logger1)
                      in Inr (\<lparr>clientPluggable = PLUGGABLE_INTEGRATIONS,
                                clientBrowser = BROWSER_INTEGRATIONS,
                                clientDev = dev nuxt,
                                clientRuntimeConfigKey = runtimeConfigKey options2,
                                clientSideConfig =
                                  spreadOver [(''dsn'', JStr (dsn options2))] (clientConfig options2),
                                clientLazy = lazy options2,
                                clientApiMethods = apiMethods,
                                clientLogMockCalls = logMockCalls options2,
                                clientTracing = tracing options2,
                                clientInitialize = canInitialize options2,
                                clientSideIntegrations =
                                  foldl (\<lambda>res key. setProp res key (getProp integrations key)) []
                                    (filterDisabledIntegration integrations)\<rparr>,
                              logger2))))"

subsection \<open>The server resolver\<close>

record server_options =
  serverSideConfig :: jsval
  serverApiMethods :: "string list"
  serverLazy :: jsval
  serverLogMockCalls :: bool

text \<open>
  \<open>Object.keys(opt).length ? new Integrations[name](opt) : new Integrations[name]()\<close>.
  The instance first: the keys of a string and of an array are their indices, a boolean
  and a number have none, and the keys of an opaque object are not determined.
\<close>

fun integrationInstance :: "string \<Rightarrow> jsval \<Rightarrow> jsval" where
  "integrationInstance name (JObj opt) =
     (if objectKeys opt \<noteq> [] then JNew name [JObj opt] else JNew name [])"
| "integrationInstance name (JArr opt) =
     (if opt \<noteq> [] then JNew name [JArr opt] else JNew name [])"
| "integrationInstance name (JStr opt) =
     (if opt \<noteq> [] then JNew name [JStr opt] else JNew name [])"
| "integrationInstance name (JBool opt) = JNew name []"
| "integrationInstance name (JNum opt) = JNew name []"
| "integrationInstance name opt = JUnmodelled"

text \<open>
  The expression throws a \<open>TypeError\<close> when \<open>Object.keys\<close> meets \<open>undefined\<close> or \<open>null\<close>,
  and when \<open>Integrations[name]\<close> is no constructor, that is, when the library exports no
  class of that name. \<open>classes\<close> are the names it exports.
\<close>

definition newIntegration :: "string list \<Rightarrow> string \<Rightarrow> jsval \<Rightarrow> error + jsval" where
  "newIntegration classes name opt =
     (if opt = JUndefined \<or> opt = JNull then Inl TypeError
      else if name \<notin> set classes then Inl TypeError
      else Inr (integrationInstance name opt))"

text \<open>The \<open>map\<close> over the enabled names, which stops at the first throw.\<close>

fun newIntegrations :: "string list \<Rightarrow> jsobj \<Rightarrow> string list \<Rightarrow> error + jsval list" where
  "newIntegrations classes integrations [] = Inr []"
| "newIntegrations classes integrations (name # names) =
     (case newIntegration classes name (getProp integrations name) of
        Inl e \<Rightarrow> Inl e
      | Inr built \<Rightarrow>
          (case newIntegrations classes integrations names of
             Inl e \<Rightarrow> Inl e
           | Inr rest \<Rightarrow> Inr (built # rest)))"

text \<open>The object literal \<open>defaultConfig\<close>, with the key spelled as the source spells it.\<close>

definition defaultConfig :: "string \<Rightarrow> jsval list \<Rightarrow> jsobj" where
  "defaultConfig dsnValue instances =
     [(''dsn'', JStr dsnValue), (''intergrations'', JArr instances)]"

text \<open>
  The runtime configuration: when \<open>publicRuntimeConfig\<close> is not a function and has the
  key \<open>runtimeConfigKey\<close>, the members \<open>config\<close> and \<open>serverConfig\<close> of that entry are
  merged into the configuration, in this order; reading them off \<open>undefined\<close> or \<open>null\<close>
  throws. Otherwise nothing is merged.
\<close>

definition runtimeSources :: "nuxt_options \<Rightarrow> string \<Rightarrow> error + jsval list" where
  "runtimeSources nuxt key =
     (case publicRuntimeConfig nuxt of
        RuntimeConfigFunction \<Rightarrow> Inr []
      | RuntimeConfigObject runtime \<Rightarrow>
          if key \<noteq> [] \<and> hasProp runtime key then
            (case readProp (getProp runtime key) ''config'' of
               Inl e \<Rightarrow> Inl e
             | Inr runtimeShared \<Rightarrow>
                 (case readProp (getProp runtime key) ''serverConfig'' of
                    Inl e \<Rightarrow> Inl e
                  | Inr runtimeServer \<Rightarrow> Inr [runtimeShared, runtimeServer]))
          else Inr [])"

definition mergeRuntimeConfig :: "nuxt_options \<Rightarrow> string \<Rightarrow> jsval \<Rightarrow> error + jsval" where
  "mergeRuntimeConfig nuxt key cfg =
     (case runtimeSources nuxt key of
        Inl e \<Rightarrow> Inl e
      | Inr sources \<Rightarrow> Inr (merge cfg sources))"

text \<open>
  \<open>resolveServerOptions\<close>, on its private copy of the options. The promise is rejected
  when an instance cannot be built, when the runtime configuration cannot be read, and
  when the import of \<open>@sentry/node\<close> is. The merged configuration is the object
  \<open>defaultConfig\<close>, so the tracing step throws no \<open>TypeError\<close> here; it is undetermined
  where the merge is.
\<close>

definition resolveServerOptions ::
  "world \<Rightarrow> nuxt_options \<Rightarrow> module_configuration \<Rightarrow> log_entry list \<Rightarrow>
   error + (server_options \<times> log_entry list)"
where
  "resolveServerOptions w nuxt moduleOptions logger =
     (let (integrations, logger1) =
             validateServerIntegrations (objectKeys (serverIntegrations moduleOptions))
               (serverIntegrations moduleOptions, logger)
      in case newIntegrations (integrationClasses w) integrations
                (filterDisabledIntegration integrations) of
           Inl e \<Rightarrow> Inl e
         | Inr instances \<Rightarrow>
             (let options0 = moduleOptions\<lparr>serverIntegrations := integrations,
                     config := merge (JObj (defaultConfig (dsn moduleOptions) instances))
                                 [config moduleOptions, serverConfig moduleOptions]\<rparr>
              in case mergeRuntimeConfig nuxt (runtimeConfigKey options0) (config options0) of
                   Inl e \<Rightarrow> Inl e
                 | Inr cfg \<Rightarrow>
                     (case getApiMethods ''@sentry/node'' (nodeApi w) of
                        Inl e \<Rightarrow> Inl e
                      | Inr apiMethods \<Rightarrow>
                          (let (options1, logger2) =
                                  resolveLazyOptions (options0\<lparr>config := cfg\<rparr>) apiMethods logger1
                           in case resolveTracingOptions options1 of
                                Inl e \<Rightarrow> Inl e
                              | Inr options2 \<Rightarrow>
                                  Inr (\<lparr>serverSideConfig = config options2,
                                         serverApiMethods = apiMethods,
                                         serverLazy = lazy options2,
                                         serverLogMockCalls = logMockCalls options2\<rparr>,
                                       logger2)))))"

section \<open>The lifecycle hooks (\<open>core/hooks\<close>)\<close>

subsection \<open>The \<open>webpack:config\<close> hook\<close>

definition pluginMissingMessage :: string where
  "pluginMissingMessage =
     ''The '' @ [CHR 0x22] @ ''@sentry/webpack-plugin'' @ [CHR 0x22] @
     '' package must be installed as a dev dependency to use the '' @
     [CHR 0x22] @ ''publishRelease'' @ [CHR 0x22] @ '' option.''"

definition releaseWarning :: log_entry where
  "releaseWarning =
     Warn (''Sentry release will not be published because '' @ [CHR 0x22] @
           ''config.release'' @ [CHR 0x22] @ '' was not set nor it '' @
           ''was possible to determine it automatically from the repository'') []"

text \<open>\<open>publicPath.startsWith('/') ? `~${publicPath}` : publicPath\<close>.\<close>

definition urlPrefixOf :: "string \<Rightarrow> string" where
  "urlPrefixOf publicPath =
     (case publicPath of
        c # rest \<Rightarrow> if c = CHR ''/'' then ''~'' @ publicPath else publicPath
      | [] \<Rightarrow> publicPath)"

text \<open>
  The first steps of the hook on its copy of \<open>options.publishRelease\<close>: the URL prefix
  is derived when none is set and the router base and the public path are both strings;
  \<open>include\<close> is turned into an array; the two output directories are pushed unless
  their release is disabled.
\<close>

definition deriveUrlPrefix :: "world \<Rightarrow> nuxt_options \<Rightarrow> jsobj \<Rightarrow> jsobj" where
  "deriveUrlPrefix w nuxt publishOptions =
     (if \<not> truthy (getProp publishOptions ''urlPrefix'') then
        (case routerBase nuxt of
           JStr base \<Rightarrow>
             (case buildPublicPath nuxt of
                JStr publicPath \<Rightarrow>
                  setProp publishOptions ''urlPrefix''
                    (JStr (urlPrefixOf (posixJoin w base publicPath)))
              | other \<Rightarrow> publishOptions)
         | other \<Rightarrow> publishOptions)
      else publishOptions)"

definition includeAsArray :: "jsobj \<Rightarrow> jsobj" where
  "includeAsArray publishOptions =
     (case getProp publishOptions ''include'' of
        JArr include \<Rightarrow> publishOptions
      | include \<Rightarrow>
          setProp publishOptions ''include'' (JArr (if truthy include then [include] else [])))"

definition pushOutputDirs :: "nuxt_options \<Rightarrow> module_configuration \<Rightarrow> jsobj \<Rightarrow> jsobj" where
  "pushOutputDirs nuxt options publishOptions =
     (case getProp publishOptions ''include'' of
        JArr include \<Rightarrow>
          setProp publishOptions ''include''
            (JArr (include @
               (if \<not> disableServerRelease options
                then [JStr (buildDir nuxt @ ''/dist/server'')] else []) @
               (if \<not> disableClientRelease options
                then [JStr (buildDir nuxt @ ''/dist/client'')] else [])))
      | other \<Rightarrow> publishOptions)"

text \<open>
  The release-publishing options as the hook has them when it tests \<open>release\<close>, which is
  \<open>options.config.release || publishRelease.release || await resolveRelease(options)\<close>:
  reading \<open>release\<close> off a \<open>config\<close> that is \<open>undefined\<close> or \<open>null\<close> throws, and
  \<open>resolveRelease\<close> is called, and may reject, only when the first two are falsy. The
  copy \<open>merge({}, options.publishRelease)\<close> is an object; options that are neither a
  boolean nor a plain object are beyond the model.
\<close>

definition releaseOptions :: "world \<Rightarrow> nuxt_options \<Rightarrow> module_configuration \<Rightarrow> error + jsobj" where
  "releaseOptions w nuxt options =
     (case merge (JObj []) [publishRelease options] of
        JObj copy \<Rightarrow>
          (let publishOptions =
                 pushOutputDirs nuxt options (includeAsArray (deriveUrlPrefix w nuxt copy))
           in case readProp (config options) ''release'' of
                Inl e \<Rightarrow> Inl e
              | Inr configRelease \<Rightarrow>
                  if truthy configRelease
                  then Inr (setProp publishOptions ''release'' configRelease)
                  else if truthy (getProp publishOptions ''release'')
                  then Inr (setProp publishOptions ''release'' (getProp publishOptions ''release''))
                  else (case resolveRelease w options of
                          Inl e \<Rightarrow> Inl e
                        | Inr resolved \<Rightarrow> Inr (setProp publishOptions ''release'' resolved)))
      | other \<Rightarrow> Inl Unmodelled)"

text \<open>
  The block under \<open>if (attachCommits)\<close>, with \<open>repo\<close> the variable
  \<open>SENTRY_RELEASE_REPO\<close> or the empty string. \<open>setCommits\<close> is the truthy member of the
  options or a fresh object; when it is a primitive, the assignment of \<open>auto\<close> throws.
\<close>

definition attachCommits :: "environment \<Rightarrow> jsobj \<Rightarrow> error + jsobj" where
  "attachCommits env publishOptions =
     (let setCommits0 = js_or (getProp publishOptions ''setCommits'') (JObj []);
          repo = (case env ''SENTRY_RELEASE_REPO'' of None \<Rightarrow> [] | Some r \<Rightarrow> r)
      in case readProp setCommits0 ''auto'' of
           Inl e \<Rightarrow> Inl e
         | Inr auto \<Rightarrow>
             (case (if auto = JUndefined then writeProp setCommits0 ''auto'' (JBool True)
                    else Inr setCommits0) of
                Inl e \<Rightarrow> Inl e
              | Inr setCommits1 \<Rightarrow>
                  (if repo \<noteq> [] then
                     (case readProp setCommits1 ''repo'' of
                        Inl e \<Rightarrow> Inl e
                      | Inr given \<Rightarrow>
                          (case (if given = JUndefined
                                 then writeProp setCommits1 ''repo'' (JStr repo)
                                 else Inr setCommits1) of
                             Inl e \<Rightarrow> Inl e
                           | Inr setCommits2 \<Rightarrow>
                               Inr (setProp publishOptions ''setCommits'' setCommits2)))
                   else Inr (setProp publishOptions ''setCommits'' setCommits1))))"

text \<open>
  The last lines of the hook: \<open>webpackConfigs[webpackConfigs.length - 1]\<close> is
  \<open>undefined\<close> for an empty list, and reading \<open>plugins\<close> off it throws; so does
  \<open>push\<close> on a \<open>plugins\<close> member that is truthy and no array.
\<close>

definition addPluginToLast :: "jsobj list \<Rightarrow> jsval \<Rightarrow> error + jsobj list" where
  "addPluginToLast webpackConfigs plugin =
     (if webpackConfigs = [] then Inl TypeError
      else (case js_or (getProp (last webpackConfigs) ''plugins'') (JArr []) of
              JArr plugins \<Rightarrow>
                Inr (butlast webpackConfigs @
                     [setProp (last webpackConfigs) ''plugins'' (JArr (plugins @ [plugin]))])
            | other \<Rightarrow> Inl TypeError))"

text \<open>
  \<open>webpackConfigHook\<close>: the build configurations are changed in place; the model returns
  them with the log, or what rejects the hook's promise.
\<close>

definition webpackConfigHook ::
  "world \<Rightarrow> nuxt_options \<Rightarrow> jsobj list \<Rightarrow> module_configuration \<Rightarrow> log_entry list \<Rightarrow>
   error + (jsobj list \<times> log_entry list)"
where
  "webpackConfigHook w nuxt webpackConfigs options logger =
     (if \<not> webpackPluginLoads w then Inl (Error pluginMissingMessage)
      else
        (case releaseOptions w nuxt options of
           Inl e \<Rightarrow> Inl e
         | Inr publishOptions \<Rightarrow>
             if \<not> truthy (getProp publishOptions ''release'')
             then Inr (webpackConfigs, logger @ [releaseWarning])
             else
               (case (if envToBool (processEnv w ''SENTRY_AUTO_ATTACH_COMMITS'')
                      then attachCommits (processEnv w) publishOptions
                      else Inr publishOptions) of
                  Inl e \<Rightarrow> Inl e
                | Inr pluginOptions \<Rightarrow>
                    (case addPluginToLast
                            (map (\<lambda>webpackConfig.
                                    setProp webpackConfig ''devtool'' (sourceMapStyle options))
                               webpackConfigs)
                            (JNew ''SentryWebpackPlugin'' [JObj pluginOptions]) of
                       Inl e \<Rightarrow> Inl e
                     | Inr webpackConfigs' \<Rightarrow> Inr (webpackConfigs', logger)))))"

subsection \<open>Server initialization and shutdown\<close>

text \<open>
  The state of the process: whether \<open>process.sentry\<close> holds the library, the
  configurations that \<open>Sentry.init\<close> was called with, in order, and the number of
  \<open>close\<close> calls.
\<close>

record process_state =
  processSentry :: bool
  sentryInits :: "jsval list"
  sentryCloses :: nat

definition initializeServerSentry ::
  "world \<Rightarrow> nuxt_options \<Rightarrow> module_configuration \<Rightarrow> process_state \<times> log_entry list \<Rightarrow>
   error + (process_state \<times> log_entry list)"
where
  "initializeServerSentry w nuxt moduleOptions st =
     (if processSentry (fst st) then Inr st
      else
        (let release = (case releaseFile w of None \<Rightarrow> JUndefined | Some r \<Rightarrow> r)
         in case resolveServerOptions w nuxt moduleOptions (snd st) of
              Inl e \<Rightarrow> Inl e
            | Inr (serverOptions, logger) \<Rightarrow>
                (let sentryConfig = merge (JObj [(''release'', release)])
                                      [serverSideConfig serverOptions]
                 in Inr ((fst st)\<lparr>processSentry := True,
                            sentryInits :=
                              (if canInitialize moduleOptions
                               then sentryInits (fst st) @ [sentryConfig]
                               else sentryInits (fst st))\<rparr>,
                         logger))))"

definition shutdownServerSentry :: "process_state \<Rightarrow> process_state" where
  "shutdownServerSentry st =
     (if processSentry st
      then st\<lparr>processSentry := False, sentryCloses := sentryCloses st + 1\<rparr>
      else st)"

section \<open>Notions of the specification\<close>

text \<open>
  A string that equals \<open>false\<close> case-insensitively: five letters, each the letter of
  \<open>false\<close> at its place, in either case.
\<close>

definition spelledFalse :: "string \<Rightarrow> bool" where
  "spelledFalse s =
     (case s of
        [c1, c2, c3, c4, c5] \<Rightarrow>
          (c1 = CHR ''f'' \<or> c1 = CHR ''F'') \<and> (c2 = CHR ''a'' \<or> c2 = CHR ''A'') \<and>
          (c3 = CHR ''l'' \<or> c3 = CHR ''L'') \<and> (c4 = CHR ''s'' \<or> c4 = CHR ''S'') \<and>
          (c5 = CHR ''e'' \<or> c5 = CHR ''E'')
      | _ \<Rightarrow> False)"


text \<open>
  The values that stand for JavaScript values: every object has each key once, and
  nothing is left undetermined.
\<close>

fun wellFormed :: "jsval \<Rightarrow> bool"
  and wellFormedFields :: "jsobj \<Rightarrow> bool"
  and wellFormedElems :: "jsval list \<Rightarrow> bool"
where
  "wellFormed (JArr xs) = wellFormedElems xs"
| "wellFormed (JObj obj) = (distinct (map fst obj) \<and> wellFormedFields obj)"
| "wellFormed JUnmodelled = False"
| "wellFormed v = True"
| "wellFormedFields [] = True"
| "wellFormedFields ((key, v) # obj) = (wellFormed v \<and> wellFormedFields obj)"
| "wellFormedElems [] = True"
| "wellFormedElems (x # xs) = (wellFormed x \<and> wellFormedElems xs)"

text \<open>The value found by following a path of keys through plain objects.\<close>

fun atPath :: "jsval \<Rightarrow> string list \<Rightarrow> jsval" where
  "atPath v [] = v"
| "atPath (JObj obj) (key # path) =
     (case map_of obj key of None \<Rightarrow> JUndefined | Some v \<Rightarrow> atPath v path)"
| "atPath v (key # path) = JUndefined"

section \<open>Example inputs\<close>

text \<open>
  Surroundings in which every library loads, \<open>@sentry/integrations\<close> exports the classes
  that its version 6 exports (none of them is called \<open>Modules\<close>: the class of that name
  belongs to \<open>@sentry/node\<close>), no environment variable is set, the command-line tool
  proposes no version and no release file exists. The join of the example concatenates,
  which is what \<open>posix.join\<close> yields for \<open>/app\<close> and \<open>/assets\<close>.
\<close>

definition exampleWorld :: world where
  "exampleWorld =
     \<lparr>processEnv = (\<lambda>name. None),
      browserApi = Some [''init'', ''captureException'', ''captureMessage''],
      nodeApi = Some [''init'', ''captureException'', ''captureMessage''],
      integrationClasses =
        [''Angular'', ''CaptureConsole'', ''Debug'', ''Dedupe'', ''Ember'', ''ExtraErrorData'',
         ''Offline'', ''ReportingObserver'', ''RewriteFrames'', ''SessionTiming'',
         ''Transaction'', ''Vue''],
      proposeVersion = None,
      webpackPluginLoads = True,
      releaseFile = None,
      posixJoin = (\<lambda>a b. a @ b)\<rparr>"

definition exampleNuxt :: nuxt_options where
  "exampleNuxt =
     \<lparr>dev = False,
      buildDir = ''.output'',
      routerBase = JStr ''/app'',
      buildPublicPath = JStr ''/assets'',
      publicRuntimeConfig = RuntimeConfigObject []\<rparr>"

text \<open>The options that \<open>setup\<close> resolves from the defaults and a DSN.\<close>

definition exampleOptions :: module_configuration where
  "exampleOptions =
     \<lparr>lazy = JBool False,
      dsn = ''https://key@sentry.example/1'',
      disabled = False,
      initialize = True,
      runtimeConfigKey = ''sentry'',
      disableClientSide = False,
      disableServerSide = False,
      publishRelease = JBool True,
      disableServerRelease = False,
      disableClientRelease = False,
      logMockCalls = True,
      sourceMapStyle = JStr ''source-map'',
      tracing = JBool False,
      clientIntegrations =
        [(''Dedupe'', JObj []), (''ExtraErrorData'', JObj []), (''ReportingObserver'', JObj []),
         (''RewriteFrames'', JObj []),
         (''Vue'', JObj [(''attachProps'', JBool True), (''logErrors'', JBool False)])],
      serverIntegrations =
        [(''Dedupe'', JObj []), (''ExtraErrorData'', JObj []), (''RewriteFrames'', JObj []),
         (''Transaction'', JObj [])],
      config = JObj [(''environment'', JStr ''production'')],
      serverConfig = JObj [],
      clientConfig = JObj [],
      requestHandlerConfig = JObj []\<rparr>"

section \<open>Properties of the definitions\<close>

subsection \<open>Lower case\<close>

text \<open>
  A character is mapped to a small ASCII letter exactly by that letter and its capital.
\<close>

lemma toLowerChar_eq_lower:
  assumes d: "97 \<le> (of_char d :: nat)" "(of_char d :: nat) \<le> 122"
  shows "toLowerChar c = d \<longleftrightarrow> c = d \<or> c = char_of ((of_char d :: nat) - 32)"
proof -
  let ?n = "of_char c :: nat"
  let ?m = "of_char d :: nat"
  show ?thesis
  proof (cases "(65 \<le> ?n \<and> ?n \<le> 90) \<or> (192 \<le> ?n \<and> ?n \<le> 222 \<and> ?n \<noteq> 215)")
    case True
    then have eq: "toLowerChar c = char_of (?n + 32)" by (simp add: toLowerChar_def)
    have "char_of (?n + 32) = d \<longleftrightarrow> ?n + 32 = ?m"
    proof
      assume "char_of (?n + 32) = d"
      then have "of_char (char_of (?n + 32) :: char) = ?m" by simp
      then have "(?n + 32) mod 256 = ?m" by (simp only: of_char_of)
      moreover have "?n + 32 < 256" using True by auto
      ultimately show "?n + 32 = ?m" by simp
    next
      assume "?n + 32 = ?m"
      then have "char_of (?n + 32) = (char_of ?m :: char)" by simp
      then show "char_of (?n + 32) = d" by simp
    qed
    moreover have "c \<noteq> d" using True d by auto
    moreover have "?n + 32 = ?m \<longleftrightarrow> c = char_of (?m - 32)"
    proof
      assume "?n + 32 = ?m"
      then have "?n = ?m - 32" by simp
      then have "char_of ?n = (char_of (?m - 32) :: char)" by simp
      then show "c = char_of (?m - 32)" by simp
    next
      assume "c = char_of (?m - 32)"
      then have "?n = of_char (char_of (?m - 32) :: char)" by simp
      then have "?n = (?m - 32) mod 256" by (simp only: of_char_of)
      then show "?n + 32 = ?m" using d by simp
    qed
    ultimately show ?thesis using eq by simp
  next
    case False
    then have eq: "toLowerChar c = c" by (auto simp: toLowerChar_def)
    have "c \<noteq> char_of (?m - 32)"
    proof
      assume "c = char_of (?m - 32)"
      then have "?n = of_char (char_of (?m - 32) :: char)" by simp
      then have "?n = (?m - 32) mod 256" by (simp only: of_char_of)
      then have "?n = ?m - 32" using d by simp
      then show False using False d by auto
    qed
    then show ?thesis using eq by auto
  qed
qed

lemma capital_letters:
  "char_of (70::nat) = CHR ''F''" "char_of (65::nat) = CHR ''A''" "char_of (76::nat) = CHR ''L''"
  "char_of (83::nat) = CHR ''S''" "char_of (69::nat) = CHR ''E''"
  by code_simp+

lemma toLowerChar_false_letters:
  "toLowerChar c = CHR ''f'' \<longleftrightarrow> c = CHR ''f'' \<or> c = CHR ''F''"
  "toLowerChar c = CHR ''a'' \<longleftrightarrow> c = CHR ''a'' \<or> c = CHR ''A''"
  "toLowerChar c = CHR ''l'' \<longleftrightarrow> c = CHR ''l'' \<or> c = CHR ''L''"
  "toLowerChar c = CHR ''s'' \<longleftrightarrow> c = CHR ''s'' \<or> c = CHR ''S''"
  "toLowerChar c = CHR ''e'' \<longleftrightarrow> c = CHR ''e'' \<or> c = CHR ''E''"
  using toLowerChar_eq_lower[of "CHR ''f''" c] toLowerChar_eq_lower[of "CHR ''a''" c]
    toLowerChar_eq_lower[of "CHR ''l''" c] toLowerChar_eq_lower[of "CHR ''s''" c]
    toLowerChar_eq_lower[of "CHR ''e''" c]
  by (simp_all add: capital_letters)

lemma toLowerCase_false_iff: "toLowerCase s = ''false'' \<longleftrightarrow> spelledFalse s"
proof (cases s)
  case Nil
  then show ?thesis by (simp add: toLowerCase_def spelledFalse_def)
next
  case (Cons c1 s1)
  then show ?thesis
    by (auto simp: toLowerCase_def spelledFalse_def toLowerChar_false_letters
             split: list.splits)
qed

subsection \<open>Objects and their merge\<close>

text \<open>
  Assignment and merge, key by key: a key that the source lacks keeps its value, and a
  key of the source holds the merge of the two values.
\<close>

text \<open>
  The library on small inputs: arrays meet index by index, \<open>undefined\<close> does not
  replace a value but creates a missing key, objects are merged key by key, an object
  replaces a primitive, sources without keys are passed over; under the customizer of
  \<open>setup\<close> a target array takes the source's value at its end.
\<close>

lemma merge_examples:
  "merge (JObj [(''a'', JArr [JStr ''x'', JStr ''y'', JStr ''z''])]) [JObj [(''a'', JArr [JStr ''u''])]] =
     JObj [(''a'', JArr [JStr ''u'', JStr ''y'', JStr ''z''])]"
  "merge (JObj [(''a'', JStr ''x'')]) [JObj [(''a'', JUndefined)]] = JObj [(''a'', JStr ''x'')]"
  "merge (JObj []) [JObj [(''a'', JUndefined)]] = JObj [(''a'', JUndefined)]"
  "merge (JObj [(''a'', JObj [(''b'', JStr ''x'')])]) [JObj [(''a'', JObj [(''c'', JStr ''y'')])]] =
     JObj [(''a'', JObj [(''b'', JStr ''x''), (''c'', JStr ''y'')])]"
  "merge (JObj [(''a'', JStr ''x'')]) [JObj [(''a'', JObj [(''c'', JStr ''y'')])], JBool True, JUndefined] =
     JObj [(''a'', JObj [(''c'', JStr ''y'')])]"
  "mergeWith (Some mergeWithCustomizer) (JObj [(''a'', JArr [JStr ''x''])]) [JObj [(''a'', JStr ''y'')]] =
     JObj [(''a'', JArr [JStr ''x'', JStr ''y''])]"
  "mergeWith (Some mergeWithCustomizer) (JObj [(''a'', JStr ''x'')]) [JObj [(''a'', JArr [JStr ''y''])]] =
     JObj [(''a'', JArr [JStr ''y''])]"
  by (simp_all add: merge_def mergeWith_def customized_def)

lemma map_of_setProp:
  "map_of (setProp obj key v) k = (if k = key then Some v else map_of obj k)"
  by (induction obj key v rule: setProp.induct) auto

lemma keys_setProp:
  "fst ` set (setProp obj key v) = insert key (fst ` set obj)"
  by (induction obj key v rule: setProp.induct) auto

lemma setProp_fresh:
  "key \<notin> fst ` set obj \<Longrightarrow> setProp obj key v = obj @ [(key, v)]"
  by (induction obj key v rule: setProp.induct) auto

lemma distinct_setProp:
  "distinct (map fst obj) \<Longrightarrow> distinct (map fst (setProp obj key v))"
  by (induction obj key v rule: setProp.induct) (auto simp: keys_setProp)

lemma getProp_setProp:
  "getProp (setProp obj key v) k = (if k = key then v else getProp obj k)"
  by (simp add: getProp_def map_of_setProp)

lemma baseMergeFields_other:
  "k \<notin> fst ` set source \<Longrightarrow> map_of (baseMergeFields c object source) k = map_of object k"
  by (induction source arbitrary: object) (auto simp: map_of_setProp)

lemma baseMergeFields_key:
  "distinct (map fst source) \<Longrightarrow> map_of source k = Some srcValue \<Longrightarrow>
   map_of (baseMergeFields c object source) k =
     Some (baseMergeValue c (map_of object k) srcValue)"
proof (induction source arbitrary: object)
  case Nil
  then show ?case by simp
next
  case (Cons kv source)
  obtain key v where kv: "kv = (key, v)" by (cases kv)
  show ?case
  proof (cases "k = key")
    case True
    then have "k \<notin> fst ` set source" using Cons.prems kv by auto
    then show ?thesis using Cons.prems kv True
      by (simp add: baseMergeFields_other map_of_setProp)
  next
    case False
    then show ?thesis using Cons kv by (simp add: map_of_setProp)
  qed
qed

lemma distinct_baseMergeFields:
  "distinct (map fst object) \<Longrightarrow> distinct (map fst (baseMergeFields c object source))"
  by (induction source arbitrary: object) (auto simp: distinct_setProp)


subsection \<open>Copies\<close>

text \<open>
  Merging a well-formed value into nothing yields the value: this is the private copy
  that the resolvers and hooks take with \<open>merge({}, value)\<close>.
\<close>

lemma wellFormedFields_iff: "wellFormedFields obj \<longleftrightarrow> (\<forall>kv \<in> set obj. wellFormed (snd kv))"
  by (induction obj) auto

lemma wellFormedElems_iff: "wellFormedElems xs \<longleftrightarrow> (\<forall>x \<in> set xs. wellFormed x)"
  by (induction xs) auto

lemma wellFormed_map_of:
  "wellFormed (JObj obj) \<Longrightarrow> map_of obj k = Some v \<Longrightarrow> wellFormed v"
  by (auto simp: wellFormedFields_iff dest!: map_of_SomeD)

lemma copy_fields:
  assumes "\<And>k v. (k, v) \<in> set source \<Longrightarrow> baseMergeValue c None v = v"
    and "distinct (map fst source)"
    and "fst ` set object \<inter> fst ` set source = {}"
  shows "baseMergeFields c object source = object @ source"
  using assms
proof (induction source arbitrary: object)
  case Nil
  then show ?case by simp
next
  case (Cons kv source)
  obtain key v where kv: "kv = (key, v)" by (cases kv)
  have fresh: "key \<notin> fst ` set object" using Cons.prems(3) kv by auto
  then have none: "map_of object key = None" by (simp add: map_of_eq_None_iff)
  have v: "baseMergeValue c None v = v" using Cons.prems(1)[of key v] kv by simp
  have step: "setProp object key (baseMergeValue c (map_of object key) v) = object @ [(key, v)]"
    using fresh none v by (simp add: setProp_fresh)
  have "baseMergeFields c (object @ [(key, v)]) source = (object @ [(key, v)]) @ source"
  proof (rule Cons.IH)
    show "\<And>k v. (k, v) \<in> set source \<Longrightarrow> baseMergeValue c None v = v"
      using Cons.prems(1) by auto
    show "distinct (map fst source)" using Cons.prems(2) by simp
    show "fst ` set (object @ [(key, v)]) \<inter> fst ` set source = {}"
      using Cons.prems(2,3) kv by auto
  qed
  then show ?case using kv step by simp
qed

lemma copy_elems:
  assumes "\<And>x. x \<in> set source \<Longrightarrow> baseMergeValue c None x = x"
  shows "baseMergeElems c [] source = source"
  using assms by (induction source) auto

text \<open>Neither customizer has anything to say about a key that the target lacks.\<close>

lemma customized_absent:
  "c = None \<or> c = Some mergeWithCustomizer \<Longrightarrow> customized c None v = JUndefined"
  by (auto simp: customized_def)

lemma baseMergeValue_copy:
  assumes c: "c = None \<or> c = Some mergeWithCustomizer"
  shows "wellFormed v \<Longrightarrow> baseMergeValue c None v = v"
proof (induction v)
  case (JArr xs)
  have "baseMergeElems c [] xs = xs"
  proof (rule copy_elems)
    fix x assume "x \<in> set xs"
    then show "baseMergeValue c None x = x"
      using JArr by (simp add: wellFormedElems_iff)
  qed
  then show ?case using customized_absent[OF c] by simp
next
  case (JObj obj)
  have "baseMergeFields c [] obj = [] @ obj"
  proof (rule copy_fields)
    fix k v assume kv: "(k, v) \<in> set obj"
    then have "wellFormed v" using JObj.prems by (auto simp: wellFormedFields_iff)
    moreover have "v \<in> Basic_BNFs.snds (k, v)" by simp
    ultimately show "baseMergeValue c None v = v" using JObj.IH kv by blast
  next
    show "distinct (map fst obj)" using JObj.prems by simp
  qed simp
  then show ?case using customized_absent[OF c] by simp
qed (use customized_absent[OF c] in simp_all)

subsection \<open>Concatenation under the customizer\<close>

lemma mergeWith_one [simp]:
  "mergeWith c (JObj object) [JObj source] = JObj (baseMergeFields c object source)"
  by (simp add: mergeWith_def)

lemma atPath_array_obj:
  "atPath v (key # path) = JArr xs \<Longrightarrow> \<exists>obj w. v = JObj obj \<and> map_of obj key = Some w \<and> atPath w path = JArr xs"
  by (cases v) (auto split: option.splits)

lemma concat_at_path:
  "wellFormed (JObj source) \<Longrightarrow> path \<noteq> [] \<Longrightarrow>
   atPath (JObj object) path = JArr xs \<Longrightarrow> atPath (JObj source) path = JArr ys \<Longrightarrow>
   atPath (JObj (baseMergeFields (Some mergeWithCustomizer) object source)) path = JArr (xs @ ys)"
proof (induction path arbitrary: object source)
  case Nil
  then show ?case by simp
next
  case (Cons key path)
  obtain ov where ov: "map_of object key = Some ov" "atPath ov path = JArr xs"
    using atPath_array_obj[OF Cons.prems(3)] by auto
  obtain sv where sv: "map_of source key = Some sv" "atPath sv path = JArr ys"
    using atPath_array_obj[OF Cons.prems(4)] by auto
  have dist: "distinct (map fst source)" using Cons.prems(1) by simp
  have wsv: "wellFormed sv" using wellFormed_map_of[OF Cons.prems(1) sv(1)] .
  have at: "map_of (baseMergeFields (Some mergeWithCustomizer) object source) key =
        Some (baseMergeValue (Some mergeWithCustomizer) (Some ov) sv)"
    using baseMergeFields_key[OF dist sv(1)] ov(1) by simp
  show ?case
  proof (cases path)
    case Nil
    then have "ov = JArr xs" "sv = JArr ys" using ov sv by simp_all
    then show ?thesis using at Nil by (simp add: customized_def)
  next
    case (Cons key' path')
    obtain o' where o': "ov = JObj o'" using atPath_array_obj ov(2) Cons by blast
    obtain s' where s': "sv = JObj s'" using atPath_array_obj sv(2) Cons by blast
    have "atPath (JObj (baseMergeFields (Some mergeWithCustomizer) o' s')) path = JArr (xs @ ys)"
      using Cons.IH[of s' o'] wsv ov(2) sv(2) o' s' Cons by simp
    then show ?thesis using at o' s' by (simp add: customized_def)
  qed
qed


subsection \<open>The validation loops\<close>

lemma deleteProp_filter:
  "deleteProp (filter P obj) name = filter (\<lambda>kv. P kv \<and> fst kv \<noteq> name) obj"
  by (simp add: deleteProp_def conj_commute)

lemma validateClientIntegrations_loop:
  "validateClientIntegrations names (filter P obj, logger) =
     (filter (\<lambda>kv. P kv \<and>
                (fst kv \<in> set names \<longrightarrow>
                   fst kv \<in> set PLUGGABLE_INTEGRATIONS \<union> set BROWSER_INTEGRATIONS)) obj,
      logger @ map clientIntegrationWarning
        (filter (\<lambda>name. name \<notin> set PLUGGABLE_INTEGRATIONS \<union> set BROWSER_INTEGRATIONS) names))"
proof (induction names arbitrary: P logger)
  case Nil
  then show ?case by simp
next
  case (Cons name names)
  show ?case
  proof (cases "name \<in> set PLUGGABLE_INTEGRATIONS \<union> set BROWSER_INTEGRATIONS")
    case True
    have "validateClientIntegrations (name # names) (filter P obj, logger) =
          validateClientIntegrations names (filter P obj, logger)"
      using True by auto
    also have "\<dots> = (filter (\<lambda>kv. P kv \<and>
                (fst kv \<in> set names \<longrightarrow>
                   fst kv \<in> set PLUGGABLE_INTEGRATIONS \<union> set BROWSER_INTEGRATIONS)) obj,
      logger @ map clientIntegrationWarning
        (filter (\<lambda>name. name \<notin> set PLUGGABLE_INTEGRATIONS \<union> set BROWSER_INTEGRATIONS) names))"
      by (rule Cons.IH)
    also have "filter (\<lambda>kv. P kv \<and>
                (fst kv \<in> set names \<longrightarrow>
                   fst kv \<in> set PLUGGABLE_INTEGRATIONS \<union> set BROWSER_INTEGRATIONS)) obj =
       filter (\<lambda>kv. P kv \<and>
                (fst kv \<in> set (name # names) \<longrightarrow>
                   fst kv \<in> set PLUGGABLE_INTEGRATIONS \<union> set BROWSER_INTEGRATIONS)) obj"
      using True by (intro filter_cong) auto
    finally show ?thesis using True by auto
  next
    case False
    have "validateClientIntegrations (name # names) (filter P obj, logger) =
          validateClientIntegrations names
            (filter (\<lambda>kv. P kv \<and> fst kv \<noteq> name) obj, logger @ [clientIntegrationWarning name])"
      using False by (auto simp: deleteProp_filter)
    also have "\<dots> = (filter (\<lambda>kv. (P kv \<and> fst kv \<noteq> name) \<and>
                (fst kv \<in> set names \<longrightarrow>
                   fst kv \<in> set PLUGGABLE_INTEGRATIONS \<union> set BROWSER_INTEGRATIONS)) obj,
      (logger @ [clientIntegrationWarning name]) @ map clientIntegrationWarning
        (filter (\<lambda>name. name \<notin> set PLUGGABLE_INTEGRATIONS \<union> set BROWSER_INTEGRATIONS) names))"
      by (rule Cons.IH)
    also have "filter (\<lambda>kv. (P kv \<and> fst kv \<noteq> name) \<and>
                (fst kv \<in> set names \<longrightarrow>
                   fst kv \<in> set PLUGGABLE_INTEGRATIONS \<union> set BROWSER_INTEGRATIONS)) obj =
       filter (\<lambda>kv. P kv \<and>
                (fst kv \<in> set (name # names) \<longrightarrow>
                   fst kv \<in> set PLUGGABLE_INTEGRATIONS \<union> set BROWSER_INTEGRATIONS)) obj"
      using False by (intro filter_cong) auto
    finally show ?thesis using False by auto
  qed
qed

lemma validateServerIntegrations_loop:
  "validateServerIntegrations names (filter P obj, logger) =
     (filter (\<lambda>kv. P kv \<and> (fst kv \<in> set names \<longrightarrow> fst kv \<in> set SERVER_INTEGRATIONS)) obj,
      logger @ map serverIntegrationWarning
        (filter (\<lambda>name. name \<notin> set SERVER_INTEGRATIONS) names))"
proof (induction names arbitrary: P logger)
  case Nil
  then show ?case by simp
next
  case (Cons name names)
  show ?case
  proof (cases "name \<in> set SERVER_INTEGRATIONS")
    case True
    have "validateServerIntegrations (name # names) (filter P obj, logger) =
          validateServerIntegrations names (filter P obj, logger)"
      using True by auto
    also have "\<dots> = (filter (\<lambda>kv. P kv \<and>
                (fst kv \<in> set names \<longrightarrow> fst kv \<in> set SERVER_INTEGRATIONS)) obj,
      logger @ map serverIntegrationWarning
        (filter (\<lambda>name. name \<notin> set SERVER_INTEGRATIONS) names))"
      by (rule Cons.IH)
    also have "filter (\<lambda>kv. P kv \<and>
                (fst kv \<in> set names \<longrightarrow> fst kv \<in> set SERVER_INTEGRATIONS)) obj =
       filter (\<lambda>kv. P kv \<and>
                (fst kv \<in> set (name # names) \<longrightarrow> fst kv \<in> set SERVER_INTEGRATIONS)) obj"
      using True by (intro filter_cong) auto
    finally show ?thesis using True by auto
  next
    case False
    have "validateServerIntegrations (name # names) (filter P obj, logger) =
          validateServerIntegrations names
            (filter (\<lambda>kv. P kv \<and> fst kv \<noteq> name) obj, logger @ [serverIntegrationWarning name])"
      using False by (auto simp: deleteProp_filter)
    also have "\<dots> = (filter (\<lambda>kv. (P kv \<and> fst kv \<noteq> name) \<and>
                (fst kv \<in> set names \<longrightarrow> fst kv \<in> set SERVER_INTEGRATIONS)) obj,
      (logger @ [serverIntegrationWarning name]) @ map serverIntegrationWarning
        (filter (\<lambda>name. name \<notin> set SERVER_INTEGRATIONS) names))"
      by (rule Cons.IH)
    also have "filter (\<lambda>kv. (P kv \<and> fst kv \<noteq> name) \<and>
                (fst kv \<in> set names \<longrightarrow> fst kv \<in> set SERVER_INTEGRATIONS)) obj =
       filter (\<lambda>kv. P kv \<and>
                (fst kv \<in> set (name # names) \<longrightarrow> fst kv \<in> set SERVER_INTEGRATIONS)) obj"
      using False by (intro filter_cong) auto
    finally show ?thesis using False by auto
  qed
qed

lemma validateClientIntegrations_keys:
  "validateClientIntegrations (objectKeys obj) (obj, logger) =
     (filter (\<lambda>kv. fst kv \<in> set PLUGGABLE_INTEGRATIONS \<union> set BROWSER_INTEGRATIONS) obj,
      logger @ map clientIntegrationWarning
        (filter (\<lambda>name. name \<notin> set PLUGGABLE_INTEGRATIONS \<union> set BROWSER_INTEGRATIONS)
           (objectKeys obj)))"
proof -
  have "filter (\<lambda>kv. True \<and> (fst kv \<in> set (objectKeys obj) \<longrightarrow>
            fst kv \<in> set PLUGGABLE_INTEGRATIONS \<union> set BROWSER_INTEGRATIONS)) obj =
        filter (\<lambda>kv. fst kv \<in> set PLUGGABLE_INTEGRATIONS \<union> set BROWSER_INTEGRATIONS) obj"
    by (intro filter_cong) (auto simp: objectKeys_def)
  then show ?thesis
    using validateClientIntegrations_loop[of "objectKeys obj" "\<lambda>kv. True" obj logger] by simp
qed

lemma validateServerIntegrations_keys:
  "validateServerIntegrations (objectKeys obj) (obj, logger) =
     (filter (\<lambda>kv. fst kv \<in> set SERVER_INTEGRATIONS) obj,
      logger @ map serverIntegrationWarning
        (filter (\<lambda>name. name \<notin> set SERVER_INTEGRATIONS) (objectKeys obj)))"
proof -
  have "filter (\<lambda>kv. True \<and> (fst kv \<in> set (objectKeys obj) \<longrightarrow>
            fst kv \<in> set SERVER_INTEGRATIONS)) obj =
        filter (\<lambda>kv. fst kv \<in> set SERVER_INTEGRATIONS) obj"
    by (intro filter_cong) (auto simp: objectKeys_def)
  then show ?thesis
    using validateServerIntegrations_loop[of "objectKeys obj" "\<lambda>kv. True" obj logger] by simp
qed


subsection \<open>Lazy options\<close>

lemma merge_two_objects:
  "merge (JObj object) [JObj s1, JObj s2] =
     JObj (baseMergeFields None (baseMergeFields None object s1) s2)"
  by (simp add: merge_def mergeWith_def)

lemma defaultLazyOptions_copy:
  "baseMergeFields None [] defaultLazyOptions = defaultLazyOptions"
  by (simp add: defaultLazyOptions_def customized_def)

lemma getProp_baseMergeFields_other:
  "k \<notin> fst ` set source \<Longrightarrow> getProp (baseMergeFields c object source) k = getProp object k"
  by (simp add: getProp_def baseMergeFields_other)

lemma getProp_baseMergeFields_key:
  "distinct (map fst source) \<Longrightarrow> map_of source k = Some srcValue \<Longrightarrow>
   getProp (baseMergeFields c object source) k = baseMergeValue c (map_of object k) srcValue"
  by (simp add: getProp_def baseMergeFields_key)

lemma wellFormedElems_copy:
  "wellFormedElems xs \<Longrightarrow> baseMergeElems None [] xs = xs"
  by (rule copy_elems) (simp add: baseMergeValue_copy wellFormedElems_iff)

lemma resolveLazyOptions_given_list:
  assumes given: "lazy options = JObj given"
    and wf: "wellFormed (JObj given)"
    and mock: "map_of given ''mockApiMethods'' = Some (JArr mockMethods)"
    and inject: "map_of given ''injectMock'' = None \<or> map_of given ''injectMock'' = Some (JBool True)"
  shows "propOf (lazy (fst (resolveLazyOptions options apiMethods logger))) ''mockApiMethods'' =
           JArr (filter (apiIncludes apiMethods) mockMethods @
                 (if ''captureException'' \<in> set apiMethods \<and>
                     JStr ''captureException'' \<in> set mockMethods
                  then [] else [JStr ''captureException'']))"
proof -
  define lz where "lz = baseMergeFields None defaultLazyOptions given"
  have dist: "distinct (map fst given)" using wf by simp
  have m: "merge (JObj []) [JObj defaultLazyOptions, lazy options] = JObj lz"
    by (simp add: given merge_two_objects defaultLazyOptions_copy lz_def)
  have inj: "getProp lz ''injectMock'' = JBool True"
  proof (cases "map_of given ''injectMock''")
    case None
    then have "''injectMock'' \<notin> fst ` set given" by (simp add: map_of_eq_None_iff)
    then show ?thesis
      by (simp add: lz_def getProp_baseMergeFields_other) (simp add: getProp_def defaultLazyOptions_def)
  next
    case (Some v)
    then have "v = JBool True" using inject by simp
    then show ?thesis using Some dist
      by (simp add: lz_def getProp_baseMergeFields_key customized_def)
  qed
  have wfm: "wellFormedElems mockMethods"
    using wellFormed_map_of[OF wf mock] by simp
  have "map_of defaultLazyOptions ''mockApiMethods'' = Some (JBool True)"
    by (simp add: defaultLazyOptions_def)
  then have mk: "getProp lz ''mockApiMethods'' = JArr mockMethods"
    using dist mock wfm
    by (simp add: lz_def getProp_baseMergeFields_key customized_def wellFormedElems_copy)
  have mem: "JStr ''captureException'' \<in> set (filter (apiIncludes apiMethods) mockMethods) \<longleftrightarrow>
        ''captureException'' \<in> set apiMethods \<and> JStr ''captureException'' \<in> set mockMethods"
    by auto
  show ?thesis
    unfolding resolveLazyOptions_def
    using m inj mk mem given by (simp add: Let_def getProp_setProp)
qed


subsection \<open>Setup\<close>

lemma defaults_keys_distinct: "distinct (map fst (defaults env devMode))"
  by (simp add: defaults_def)

lemma setupOptions_objects:
  "setupOptions env devMode (JObj sentry) (JObj moduleOptions) =
     (let options = baseMergeFields (Some mergeWithCustomizer)
                      (baseMergeFields (Some mergeWithCustomizer)
                         (baseMergeFields (Some mergeWithCustomizer) [] (defaults env devMode))
                         sentry) moduleOptions
      in if truthy (getProp options ''publishRelease'')
         then JObj (setProp options ''publishRelease''
                (mergeWith (Some mergeWithCustomizer) (JObj defaultsPublishRelease)
                   [getProp options ''publishRelease'']))
         else JObj options)"
  by (simp add: setupOptions_def mergeWith_def js_or_def Let_def)

lemma defaults_initialize_merged:
  "getProp (baseMergeFields (Some mergeWithCustomizer) [] (defaults env devMode)) ''initialize'' =
     JBool True"
proof -
  have "map_of (defaults env devMode) ''initialize'' = Some (JBool True)"
    by (simp add: defaults_def)
  then show ?thesis
    using getProp_baseMergeFields_key[OF defaults_keys_distinct, of env devMode
        "''initialize''" "JBool True" "Some mergeWithCustomizer" "[]"]
    by (simp add: customized_def)
qed


subsection \<open>The release-publishing options\<close>

text \<open>
  The hook's copy of the options is an object with the \<open>release\<close> of the given options,
  and the steps before the test of \<open>release\<close> leave that member alone.
\<close>

lemma copy_of_publishRelease:
  assumes "given = JBool b \<or> (\<exists>obj. given = JObj obj \<and> wellFormed given)"
  shows "\<exists>obj. merge (JObj []) [given] = JObj obj \<and> getProp obj ''release'' = propOf given ''release''"
proof -
  from assms show ?thesis
  proof
    assume "given = JBool b"
    then show ?thesis by (simp add: merge_def mergeWith_def getProp_def)
  next
    assume "\<exists>obj. given = JObj obj \<and> wellFormed given"
    then obtain obj where obj: "given = JObj obj" "wellFormed (JObj obj)" by auto
    have "baseMergeValue None None (JObj obj) = JObj obj"
      using obj(2) by (intro baseMergeValue_copy) simp_all
    then have "baseMergeFields None [] obj = obj" by (simp add: customized_def)
    then show ?thesis using obj by (simp add: merge_def mergeWith_def)
  qed
qed

lemma deriveUrlPrefix_release:
  "getProp (deriveUrlPrefix w nuxt obj) ''release'' = getProp obj ''release''"
  by (auto simp: deriveUrlPrefix_def getProp_setProp split: jsval.splits)

lemma includeAsArray_release:
  "getProp (includeAsArray obj) ''release'' = getProp obj ''release''"
  by (auto simp: includeAsArray_def getProp_setProp split: jsval.splits)

lemma pushOutputDirs_release:
  "getProp (pushOutputDirs nuxt options obj) ''release'' = getProp obj ''release''"
  by (auto simp: pushOutputDirs_def getProp_setProp split: jsval.splits)

lemma js_or_falsy: "\<not> truthy a \<Longrightarrow> js_or a b = b"
  by (simp add: js_or_def)

text \<open>
  With a \<open>config\<close> that is an object, line 103 of the hook does not throw, and the
  \<open>release\<close> that the hook then tests is the first truthy one of \<open>config.release\<close>, the
  \<open>release\<close> of the options, and what \<open>resolveRelease\<close> yields.
\<close>

lemma resolveRelease_object:
  "config options = JObj cfg \<Longrightarrow>
   resolveRelease w options =
     Inr (if hasProp cfg ''release'' then JUndefined
          else case proposeVersion w of None \<Rightarrow> JUndefined | Some v \<Rightarrow> JStr (trim v))"
  by (simp add: resolveRelease_def)

lemma releaseOptions_release:
  assumes "publishRelease options = JBool b \<or>
           (\<exists>obj. publishRelease options = JObj obj \<and> wellFormed (publishRelease options))"
    and "config options = JObj cfg"
    and "resolveRelease w options = Inr resolved"
  shows "\<exists>publishOptions.
           releaseOptions w nuxt options = Inr publishOptions \<and>
           getProp publishOptions ''release'' =
             js_or (getProp cfg ''release'')
               (js_or (propOf (publishRelease options) ''release'') resolved)"
proof -
  obtain copy where copy: "merge (JObj []) [publishRelease options] = JObj copy"
    "getProp copy ''release'' = propOf (publishRelease options) ''release''"
    using copy_of_publishRelease[OF assms(1)] by auto
  have "getProp (pushOutputDirs nuxt options (includeAsArray (deriveUrlPrefix w nuxt copy)))
          ''release'' = propOf (publishRelease options) ''release''"
    by (simp add: pushOutputDirs_release includeAsArray_release deriveUrlPrefix_release copy(2))
  then show ?thesis
    using assms(2,3) copy(1)
    by (simp add: releaseOptions_def Let_def getProp_setProp js_or_def)
qed


subsection \<open>The build configurations\<close>

lemma addPluginToLast_result:
  assumes "webpackConfigs \<noteq> []"
    and "js_or (getProp (last webpackConfigs) ''plugins'') (JArr []) = JArr plugins"
  shows "addPluginToLast (map (\<lambda>c. setProp c ''devtool'' style) webpackConfigs) plugin =
           Inr (map (\<lambda>c. setProp c ''devtool'' style) (butlast webpackConfigs) @
                [setProp (setProp (last webpackConfigs) ''devtool'' style) ''plugins''
                   (JArr (plugins @ [plugin]))])"
  using assms
  by (simp add: addPluginToLast_def last_map map_butlast getProp_setProp)


subsection \<open>Tracing\<close>

text \<open>
  The tracing step does nothing when tracing is off; with a \<open>config\<close> that is an object
  it cannot throw, and it touches no key of \<open>config\<close> but \<open>tracesSampleRate\<close>.
\<close>

lemma resolveTracingOptions_off:
  "\<not> truthy (tracing options) \<Longrightarrow> resolveTracingOptions options = Inr options"
  by (simp add: resolveTracingOptions_def)

lemma resolveTracingOptions_object:
  assumes "config options = JObj cfg"
  shows "\<exists>options' cfg'.
           resolveTracingOptions options = Inr options' \<and> config options' = JObj cfg' \<and>
           (\<forall>key. key \<noteq> ''tracesSampleRate'' \<longrightarrow> getProp cfg' key = getProp cfg key) \<and>
           clientIntegrations options' = clientIntegrations options"
  using assms by (auto simp: resolveTracingOptions_def Let_def getProp_setProp)

lemma resolveLazyOptions_config:
  "config (fst (resolveLazyOptions options apiMethods logger)) = config options"
  by (simp add: resolveLazyOptions_def Let_def split: jsval.splits)

lemma resolveLazyOptions_tracing:
  "tracing (fst (resolveLazyOptions options apiMethods logger)) = tracing options"
  by (simp add: resolveLazyOptions_def Let_def split: jsval.splits)

lemma resolveLazyOptions_clientIntegrations:
  "clientIntegrations (fst (resolveLazyOptions options apiMethods logger)) =
     clientIntegrations options"
  by (simp add: resolveLazyOptions_def Let_def split: jsval.splits)

lemma resolveLazyOptions_log:
  "\<exists>after. snd (resolveLazyOptions options apiMethods logger) = logger @ after"
  by (simp add: resolveLazyOptions_def Let_def split: jsval.splits)


subsection \<open>The integration instances\<close>

lemma map_of_filter_key:
  "map_of (filter (\<lambda>kv. P (fst kv)) obj) k = (if P k then map_of obj k else None)"
  by (induction obj) auto

lemma getProp_filter_key:
  "P k \<Longrightarrow> getProp (filter (\<lambda>kv. P (fst kv)) obj) k = getProp obj k"
  by (simp add: getProp_def map_of_filter_key)

lemma filterDisabledIntegration_validated:
  "filterDisabledIntegration (filter (\<lambda>kv. P (fst kv)) integrations) =
     filter (\<lambda>name. P name \<and> truthy (getProp integrations name)) (objectKeys integrations)"
proof -
  have "filter (\<lambda>key. truthy (getProp (filter (\<lambda>kv. P (fst kv)) integrations) key))
          (filter P (map fst integrations)) =
        filter (\<lambda>name. P name \<and> truthy (getProp integrations name)) (map fst integrations)"
    by (simp add: getProp_filter_key conj_commute cong: conj_cong)
  then show ?thesis
    by (simp add: filterDisabledIntegration_def objectKeys_def filter_map comp_def)
qed

text \<open>
  When the library exports a class for every name, and every toggle is truthy, the
  \<open>map\<close> builds one instance for each name, in order.
\<close>

lemma newIntegrations_built:
  "list_all (\<lambda>name. name \<in> set classes \<and> truthy (getProp integrations name)) names \<Longrightarrow>
   newIntegrations classes integrations names =
     Inr (map (\<lambda>name. integrationInstance name (getProp integrations name)) names)"
proof (induction names)
  case Nil
  then show ?case by simp
next
  case (Cons name names)
  then have "truthy (getProp integrations name)" "name \<in> set classes" by simp_all
  then have "newIntegration classes name (getProp integrations name) =
               Inr (integrationInstance name (getProp integrations name))"
    by (auto simp: newIntegration_def)
  then show ?case using Cons by simp
qed

text \<open>The \<open>map\<close> throws at the first name for which the library exports no class.\<close>

lemma newIntegrations_missing_class:
  "name \<in> set names \<Longrightarrow> name \<notin> set classes \<Longrightarrow>
   newIntegrations classes integrations names = Inl TypeError"
proof (induction names)
  case Nil
  then show ?case by simp
next
  case (Cons n names)
  show ?case
  proof (cases "newIntegration classes n (getProp integrations n)")
    case (Inl e)
    then have "e = TypeError" by (auto simp: newIntegration_def split: if_splits)
    then show ?thesis using Inl by simp
  next
    case (Inr built)
    then have "n \<in> set classes" by (auto simp: newIntegration_def split: if_splits)
    then have "name \<in> set names" using Cons.prems by auto
    then show ?thesis using Cons Inr by simp
  qed
qed

lemma instances_validated:
  assumes "list_all (\<lambda>name. name \<in> set classes)
             (filter (\<lambda>name. name \<in> set SERVER_INTEGRATIONS \<and> truthy (getProp integrations name))
                (objectKeys integrations))"
  shows "newIntegrations classes (filter (\<lambda>kv. fst kv \<in> set SERVER_INTEGRATIONS) integrations)
           (filterDisabledIntegration
              (filter (\<lambda>kv. fst kv \<in> set SERVER_INTEGRATIONS) integrations)) =
         Inr (map (\<lambda>name. integrationInstance name (getProp integrations name))
                (filter (\<lambda>name. name \<in> set SERVER_INTEGRATIONS \<and>
                                  truthy (getProp integrations name))
                   (objectKeys integrations)))"
proof -
  let ?allowed = "\<lambda>name. name \<in> set SERVER_INTEGRATIONS"
  let ?kept = "filter (\<lambda>kv. ?allowed (fst kv)) integrations"
  let ?names = "filter (\<lambda>name. ?allowed name \<and> truthy (getProp integrations name))
                  (objectKeys integrations)"
  have names: "filterDisabledIntegration ?kept = ?names"
    by (rule filterDisabledIntegration_validated)
  have same: "getProp ?kept name = getProp integrations name" if "name \<in> set ?names" for name
    using that getProp_filter_key[of ?allowed name integrations] by simp
  have "list_all (\<lambda>name. name \<in> set classes \<and> truthy (getProp ?kept name)) ?names"
    using assms same by (auto simp: list_all_iff)
  then have "newIntegrations classes ?kept ?names =
          Inr (map (\<lambda>name. integrationInstance name (getProp ?kept name)) ?names)"
    by (rule newIntegrations_built)
  also have "map (\<lambda>name. integrationInstance name (getProp ?kept name)) ?names =
             map (\<lambda>name. integrationInstance name (getProp integrations name)) ?names"
    using same by (intro map_cong) simp_all
  finally show ?thesis unfolding names .
qed


subsection \<open>The merged configuration\<close>

text \<open>Sources that are \<open>undefined\<close>, or objects without a key, leave the key alone.\<close>

lemma merge_keeps_key:
  "list_all (\<lambda>source. source = JUndefined \<or>
                (\<exists>obj. source = JObj obj \<and> key \<notin> fst ` set obj)) sources \<Longrightarrow>
   \<exists>merged. merge (JObj object) sources = JObj merged \<and> getProp merged key = getProp object key"
proof (induction sources arbitrary: object)
  case Nil
  then show ?case by (simp add: merge_def mergeWith_def)
next
  case (Cons source sources)
  from Cons.prems have rest: "list_all (\<lambda>source. source = JUndefined \<or>
                (\<exists>obj. source = JObj obj \<and> key \<notin> fst ` set obj)) sources"
    by simp
  from Cons.prems have "source = JUndefined \<or> (\<exists>obj. source = JObj obj \<and> key \<notin> fst ` set obj)"
    by simp
  then show ?case
  proof
    assume "source = JUndefined"
    then have "merge (JObj object) (source # sources) = merge (JObj object) sources"
      by (simp add: merge_def mergeWith_def)
    then show ?thesis using Cons.IH[OF rest, of object] by simp
  next
    assume "\<exists>obj. source = JObj obj \<and> key \<notin> fst ` set obj"
    then obtain obj where obj: "source = JObj obj" "key \<notin> fst ` set obj" by auto
    have "merge (JObj object) (source # sources) =
          merge (JObj (baseMergeFields None object obj)) sources"
      using obj by (simp add: merge_def mergeWith_def)
    moreover have "getProp (baseMergeFields None object obj) key = getProp object key"
      using obj by (simp add: getProp_baseMergeFields_other)
    ultimately show ?thesis using Cons.IH[OF rest, of "baseMergeFields None object obj"] by auto
  qed
qed

text \<open>Sources that are \<open>undefined\<close> or objects merge into an object.\<close>

lemma merge_objects:
  "list_all (\<lambda>source. source = JUndefined \<or> (\<exists>obj. source = JObj obj)) sources \<Longrightarrow>
   \<exists>merged. merge (JObj object) sources = JObj merged"
proof (induction sources arbitrary: object)
  case Nil
  then show ?case by (simp add: merge_def mergeWith_def)
next
  case (Cons source sources)
  from Cons.prems have rest:
    "list_all (\<lambda>source. source = JUndefined \<or> (\<exists>obj. source = JObj obj)) sources"
    by simp
  from Cons.prems have "source = JUndefined \<or> (\<exists>obj. source = JObj obj)" by simp
  then show ?case
  proof
    assume "source = JUndefined"
    then have "merge (JObj object) (source # sources) = merge (JObj object) sources"
      by (simp add: merge_def mergeWith_def)
    then show ?thesis using Cons.IH[OF rest, of object] by simp
  next
    assume "\<exists>obj. source = JObj obj"
    then obtain obj where obj: "source = JObj obj" by auto
    have "merge (JObj object) (source # sources) =
          merge (JObj (baseMergeFields None object obj)) sources"
      using obj by (simp add: merge_def mergeWith_def)
    then show ?thesis using Cons.IH[OF rest, of "baseMergeFields None object obj"] by auto
  qed
qed

lemma merge_append: "merge (merge object xs) ys = merge object (xs @ ys)"
  by (simp add: merge_def mergeWith_def)


subsection \<open>The server resolver\<close>

text \<open>
  The resolver up to the tracing step: with the instances built and the merged
  configuration known, what it returns is decided by the last two steps.
\<close>

lemma resolveServerOptions_steps:
  assumes "nodeApi w = Some apiMethods"
    and "runtimeSources nuxt (runtimeConfigKey options) = Inr runtime"
    and "newIntegrations (integrationClasses w)
           (filter (\<lambda>kv. fst kv \<in> set SERVER_INTEGRATIONS) (serverIntegrations options))
           (filterDisabledIntegration
              (filter (\<lambda>kv. fst kv \<in> set SERVER_INTEGRATIONS) (serverIntegrations options))) =
         Inr instances"
    and "merge (JObj (defaultConfig (dsn options) instances))
           ([config options, serverConfig options] @ runtime) = cfg"
    and "resolveLazyOptions
           (options\<lparr>serverIntegrations :=
                      filter (\<lambda>kv. fst kv \<in> set SERVER_INTEGRATIONS) (serverIntegrations options),
                    config := cfg\<rparr>) apiMethods
           (logger @ map serverIntegrationWarning
              (filter (\<lambda>name. name \<notin> set SERVER_INTEGRATIONS)
                 (objectKeys (serverIntegrations options)))) = (options1, logger2)"
  shows "resolveServerOptions w nuxt options logger =
           (case resolveTracingOptions options1 of
              Inl e \<Rightarrow> Inl e
            | Inr options2 \<Rightarrow>
                Inr (\<lparr>serverSideConfig = config options2, serverApiMethods = apiMethods,
                       serverLazy = lazy options2, serverLogMockCalls = logMockCalls options2\<rparr>,
                     logger2))"
  unfolding resolveServerOptions_def validateServerIntegrations_keys
  using assms
  by (simp add: Let_def getApiMethods_def mergeRuntimeConfig_def merge_append)

lemma resolveServerOptions_returns:
  assumes "nodeApi w = Some apiMethods"
    and "runtimeSources nuxt (runtimeConfigKey options) = Inr runtime"
    and "list_all (\<lambda>source. source = JUndefined \<or> (\<exists>obj. source = JObj obj))
           ([config options, serverConfig options] @ runtime)"
    and "list_all (\<lambda>name. name \<in> set (integrationClasses w))
           (filter (\<lambda>name. name \<in> set SERVER_INTEGRATIONS \<and>
                             truthy (getProp (serverIntegrations options) name))
              (objectKeys (serverIntegrations options)))"
  shows "\<exists>result logger'. resolveServerOptions w nuxt options logger = Inr (result, logger')"
proof -
  let ?kept = "filter (\<lambda>kv. fst kv \<in> set SERVER_INTEGRATIONS) (serverIntegrations options)"
  let ?log1 = "logger @ map serverIntegrationWarning
        (filter (\<lambda>name. name \<notin> set SERVER_INTEGRATIONS) (objectKeys (serverIntegrations options)))"
  let ?instances = "map (\<lambda>name. integrationInstance name (getProp (serverIntegrations options) name))
                (filter (\<lambda>name. name \<in> set SERVER_INTEGRATIONS \<and>
                                  truthy (getProp (serverIntegrations options) name))
                   (objectKeys (serverIntegrations options)))"
  have built: "newIntegrations (integrationClasses w) ?kept (filterDisabledIntegration ?kept) =
                 Inr ?instances"
    using assms(4) by (rule instances_validated)
  obtain merged where merged:
    "merge (JObj (defaultConfig (dsn options) ?instances))
       ([config options, serverConfig options] @ runtime) = JObj merged"
    using merge_objects[OF assms(3)] by blast
  obtain options1 logger2 where lz:
    "resolveLazyOptions (options\<lparr>serverIntegrations := ?kept, config := JObj merged\<rparr>)
       apiMethods ?log1 = (options1, logger2)"
    by (cases "resolveLazyOptions (options\<lparr>serverIntegrations := ?kept, config := JObj merged\<rparr>)
                 apiMethods ?log1")
  have c1: "config options1 = JObj merged"
    using resolveLazyOptions_config[of "options\<lparr>serverIntegrations := ?kept, config := JObj merged\<rparr>"
        apiMethods ?log1] lz by simp
  obtain options2 where "resolveTracingOptions options1 = Inr options2"
    using resolveTracingOptions_object[OF c1] by blast
  then show ?thesis
    using resolveServerOptions_steps[OF assms(1,2) built merged lz] by simp
qed

text \<open>
  What the resolver returns when the sources of the merge leave the key of the
  instances alone: the instances of the kept toggles that are truthy, and a log that
  holds the warnings right after the log it was given.
\<close>

lemma resolveServerOptions_result:
  assumes "nodeApi w = Some apiMethods"
    and "runtimeSources nuxt (runtimeConfigKey options) = Inr runtime"
    and "list_all (\<lambda>source. source = JUndefined \<or>
                     (\<exists>obj. source = JObj obj \<and> ''intergrations'' \<notin> fst ` set obj))
           ([config options, serverConfig options] @ runtime)"
    and "list_all (\<lambda>name. name \<in> set (integrationClasses w))
           (filter (\<lambda>name. name \<in> set SERVER_INTEGRATIONS \<and>
                             truthy (getProp (serverIntegrations options) name))
              (objectKeys (serverIntegrations options)))"
  shows "\<exists>result after.
           resolveServerOptions w nuxt options logger =
             Inr (result, logger @ map serverIntegrationWarning
                    (filter (\<lambda>name. name \<notin> set SERVER_INTEGRATIONS)
                       (objectKeys (serverIntegrations options))) @ after) \<and>
           propOf (serverSideConfig result) ''intergrations'' =
             JArr (map (\<lambda>name. integrationInstance name (getProp (serverIntegrations options) name))
                     (filter (\<lambda>name. name \<in> set SERVER_INTEGRATIONS \<and>
                                       truthy (getProp (serverIntegrations options) name))
                        (objectKeys (serverIntegrations options))))"
proof -
  let ?kept = "filter (\<lambda>kv. fst kv \<in> set SERVER_INTEGRATIONS) (serverIntegrations options)"
  let ?log1 = "logger @ map serverIntegrationWarning
        (filter (\<lambda>name. name \<notin> set SERVER_INTEGRATIONS) (objectKeys (serverIntegrations options)))"
  let ?instances = "map (\<lambda>name. integrationInstance name (getProp (serverIntegrations options) name))
                (filter (\<lambda>name. name \<in> set SERVER_INTEGRATIONS \<and>
                                  truthy (getProp (serverIntegrations options) name))
                   (objectKeys (serverIntegrations options)))"
  have built: "newIntegrations (integrationClasses w) ?kept (filterDisabledIntegration ?kept) =
                 Inr ?instances"
    using assms(4) by (rule instances_validated)
  obtain merged where merged:
    "merge (JObj (defaultConfig (dsn options) ?instances))
       ([config options, serverConfig options] @ runtime) = JObj merged"
    "getProp merged ''intergrations'' =
       getProp (defaultConfig (dsn options) ?instances) ''intergrations''"
    using merge_keeps_key[OF assms(3), of "defaultConfig (dsn options) ?instances"] by blast
  then have held: "getProp merged ''intergrations'' = JArr ?instances"
    by (simp add: defaultConfig_def getProp_def)
  obtain options1 logger2 where lz:
    "resolveLazyOptions (options\<lparr>serverIntegrations := ?kept, config := JObj merged\<rparr>)
       apiMethods ?log1 = (options1, logger2)"
    by (cases "resolveLazyOptions (options\<lparr>serverIntegrations := ?kept, config := JObj merged\<rparr>)
                 apiMethods ?log1")
  have c1: "config options1 = JObj merged"
    using resolveLazyOptions_config[of "options\<lparr>serverIntegrations := ?kept, config := JObj merged\<rparr>"
        apiMethods ?log1] lz by simp
  obtain after where after: "logger2 = ?log1 @ after"
    using resolveLazyOptions_log[of "options\<lparr>serverIntegrations := ?kept, config := JObj merged\<rparr>"
        apiMethods ?log1] lz by auto
  obtain options2 cfg' where tr: "resolveTracingOptions options1 = Inr options2"
    "config options2 = JObj cfg'"
    "\<forall>key. key \<noteq> ''tracesSampleRate'' \<longrightarrow> getProp cfg' key = getProp merged key"
    using resolveTracingOptions_object[OF c1] by blast
  let ?result = "\<lparr>serverSideConfig = config options2, serverApiMethods = apiMethods,
                   serverLazy = lazy options2, serverLogMockCalls = logMockCalls options2\<rparr>"
  have "resolveServerOptions w nuxt options logger = Inr (?result, ?log1 @ after)"
    using resolveServerOptions_steps[OF assms(1,2) built merged(1) lz] tr(1) after
    by simp
  moreover have "propOf (serverSideConfig ?result) ''intergrations'' = JArr ?instances"
    using tr(2,3) held by simp
  ultimately show ?thesis by (intro exI[of _ ?result] exI[of _ after]) simp
qed

text \<open>An enabled toggle that is allowed but has no class in the library rejects the resolver.\<close>

lemma resolveServerOptions_missing_class:
  assumes "name \<in> set SERVER_INTEGRATIONS"
    and "name \<in> set (objectKeys (serverIntegrations options))"
    and "truthy (getProp (serverIntegrations options) name)"
    and "name \<notin> set (integrationClasses w)"
  shows "resolveServerOptions w nuxt options logger = Inl TypeError"
proof -
  let ?kept = "filter (\<lambda>kv. fst kv \<in> set SERVER_INTEGRATIONS) (serverIntegrations options)"
  have "name \<in> set (filterDisabledIntegration ?kept)"
    using assms(1,2,3)
      filterDisabledIntegration_validated[of "\<lambda>k. k \<in> set SERVER_INTEGRATIONS"
        "serverIntegrations options"]
    by simp
  then have "newIntegrations (integrationClasses w) ?kept (filterDisabledIntegration ?kept) =
               Inl TypeError"
    using assms(4) by (rule newIntegrations_missing_class)
  then show ?thesis
    unfolding resolveServerOptions_def validateServerIntegrations_keys by simp
qed


subsection \<open>The client resolver\<close>

lemma keys_reduce_setProp:
  "fst ` set (foldl (\<lambda>res key. setProp res key (f key)) acc names) = fst ` set acc \<union> set names"
  by (induction names arbitrary: acc) (auto simp: keys_setProp)

lemma resolveTracingOptions_client:
  assumes "truthy (tracing options) \<longrightarrow> (\<exists>cfg. config options = JObj cfg)"
  shows "\<exists>options'. resolveTracingOptions options = Inr options' \<and>
           clientIntegrations options' = clientIntegrations options"
proof (cases "truthy (tracing options)")
  case True
  then obtain cfg where "config options = JObj cfg" using assms by auto
  then show ?thesis using resolveTracingOptions_object by blast
next
  case False
  then show ?thesis by (simp add: resolveTracingOptions_off)
qed

lemma resolveClientOptions_integrations:
  assumes "browserApi w = Some apiMethods"
    and "truthy (tracing options) \<longrightarrow> (\<exists>cfg. config options = JObj cfg)"
  shows "\<exists>result logger'.
           resolveClientOptions w nuxt options logger = Inr (result, logger') \<and>
           fst ` set (clientSideIntegrations result) =
             {name \<in> set (objectKeys (clientIntegrations options)).
                name \<in> set PLUGGABLE_INTEGRATIONS \<union> set BROWSER_INTEGRATIONS \<and>
                truthy (getProp (clientIntegrations options) name)} \<and>
           (\<exists>before. logger' = before @ map clientIntegrationWarning
              (filter (\<lambda>name. name \<notin> set PLUGGABLE_INTEGRATIONS \<union> set BROWSER_INTEGRATIONS)
                 (objectKeys (clientIntegrations options))))"
proof -
  let ?options0 = "options\<lparr>clientConfig :=
              merge (JObj []) [config options, clientConfig options]\<rparr>"
  obtain options1 logger1 where lz:
    "resolveLazyOptions ?options0 apiMethods logger = (options1, logger1)"
    by (cases "resolveLazyOptions ?options0 apiMethods logger")
  have same: "tracing options1 = tracing options" "config options1 = config options"
    "clientIntegrations options1 = clientIntegrations options"
    using resolveLazyOptions_tracing[of ?options0 apiMethods logger]
      resolveLazyOptions_config[of ?options0 apiMethods logger]
      resolveLazyOptions_clientIntegrations[of ?options0 apiMethods logger] lz
    by simp_all
  obtain options2 where tr: "resolveTracingOptions options1 = Inr options2"
    and ci: "clientIntegrations options2 = clientIntegrations options"
    using resolveTracingOptions_client[of options1] assms(2) same by auto
  let ?allowed = "\<lambda>name. name \<in> set PLUGGABLE_INTEGRATIONS \<union> set BROWSER_INTEGRATIONS"
  let ?ints = "filter (\<lambda>kv. ?allowed (fst kv)) (clientIntegrations options)"
  let ?logger2 = "logger1 @ map clientIntegrationWarning
              (filter (\<lambda>name. \<not> ?allowed name) (objectKeys (clientIntegrations options)))"
  have v: "validateClientIntegrations (objectKeys (clientIntegrations options2))
             (clientIntegrations options2, logger1) = (?ints, ?logger2)"
    unfolding ci by (rule validateClientIntegrations_keys)
  obtain result where res: "resolveClientOptions w nuxt options logger = Inr (result, ?logger2)"
    "clientSideIntegrations result =
       foldl (\<lambda>res key. setProp res key (getProp ?ints key)) [] (filterDisabledIntegration ?ints)"
    using assms(1) lz tr v by (simp add: resolveClientOptions_def Let_def getApiMethods_def)
  have "fst ` set (clientSideIntegrations result) = set (filterDisabledIntegration ?ints)"
    by (simp add: res(2) keys_reduce_setProp)
  also have "\<dots> = {name \<in> set (objectKeys (clientIntegrations options)).
                ?allowed name \<and> truthy (getProp (clientIntegrations options) name)}"
    using filterDisabledIntegration_validated[of ?allowed "clientIntegrations options"] by auto
  finally show ?thesis using res(1) by blast
qed


section \<open>The claims\<close>

subsection \<open>Claim C1: \<open>canInitialize\<close>\<close>

text \<open>
  Claim C1. For every resolved options object, \<open>canInitialize\<close> returns true if and only
  if the \<open>initialize\<close> flag is true and the DSN string is not empty; it is false as soon
  as one of the two fails.
\<close>

theorem canInitialize_iff:
  "canInitialize options \<longleftrightarrow> initialize options = True \<and> dsn options \<noteq> []"
  by (simp add: canInitialize_def)

subsection \<open>Claim C2: \<open>envToBool\<close>\<close>

text \<open>
  Claim C2. \<open>envToBool\<close> returns false exactly when the input is absent, equals \<open>0\<close>, or
  equals \<open>false\<close> case-insensitively, and, the edge case that the claim notes, when it is
  the empty string, at which \<open>env && ...\<close> stops; it returns true for every other string.
  So \<open>false\<close>, \<open>FALSE\<close> and \<open>False\<close> give false, and \<open>1\<close>, \<open>true\<close> and \<open>yes\<close> give
  true.
\<close>

theorem envToBool_false_iff:
  "(envToBool env = False \<longleftrightarrow>
      env = None \<or> env = Some '''' \<or> env = Some ''0'' \<or> (\<exists>s. env = Some s \<and> spelledFalse s)) \<and>
   envToBool (Some ''false'') = False \<and> envToBool (Some ''FALSE'') = False \<and>
   envToBool (Some ''False'') = False \<and> envToBool (Some ''1'') = True \<and>
   envToBool (Some ''true'') = True \<and> envToBool (Some ''yes'') = True"
proof -
  have "envToBool env = False \<longleftrightarrow>
      env = None \<or> env = Some '''' \<or> env = Some ''0'' \<or> (\<exists>s. env = Some s \<and> spelledFalse s)"
    by (cases env) (auto simp: envToBool_def toLowerCase_false_iff)
  moreover have "envToBool (Some ''false'') = False" "envToBool (Some ''FALSE'') = False"
    "envToBool (Some ''False'') = False" "envToBool (Some ''1'') = True"
    "envToBool (Some ''true'') = True" "envToBool (Some ''yes'') = True"
    by (simp_all add: envToBool_def toLowerCase_false_iff spelledFalse_def)
  ultimately show ?thesis by blast
qed

subsection \<open>Claim C3: concatenation of arrays in merges\<close>

text \<open>
  Claim C3, as stated, extends the concatenation of arrays to the merges of the option
  resolvers. Those call \<open>merge\<close> without a customizer, and the library then merges arrays
  index by index: with \<open>config\<close> \<open>{include: ['a']}\<close> and the overlay \<open>{include: ['b']}\<close>,
  the merge of the shared configuration with the overlay, the client configuration and
  the server configuration all hold \<open>['b']\<close>, not \<open>['a', 'b']\<close>.
\<close>

theorem resolver_merge_replaces_counterexample:
  "merge (JObj []) [JObj [(''include'', JArr [JStr ''a''])], JObj [(''include'', JArr [JStr ''b''])]] =
     JObj [(''include'', JArr [JStr ''b''])] \<and>
   clientSideConfig (fst (projr
     (resolveClientOptions exampleWorld exampleNuxt
        (exampleOptions\<lparr>config := JObj [(''include'', JArr [JStr ''a''])],
                          clientConfig := JObj [(''include'', JArr [JStr ''b''])]\<rparr>) []))) =
     JObj [(''dsn'', JStr ''https://key@sentry.example/1''), (''include'', JArr [JStr ''b''])] \<and>
   serverSideConfig (fst (projr
     (resolveServerOptions exampleWorld exampleNuxt
        (exampleOptions\<lparr>config := JObj [(''include'', JArr [JStr ''a''])],
                          serverConfig := JObj [(''include'', JArr [JStr ''b''])]\<rparr>) []))) =
     JObj [(''dsn'', JStr ''https://key@sentry.example/1''),
           (''intergrations'',
            JArr [JNew ''Dedupe'' [], JNew ''ExtraErrorData'' [], JNew ''RewriteFrames'' [],
                  JNew ''Transaction'' []]),
           (''include'', JArr [JStr ''b''])]"
  by code_simp

text \<open>
  Claim C3, amended. In the merges that \<open>setup\<close> performs with \<open>mergeWithCustomizer\<close> (the
  chain of defaults, top-level options and module options, and the merge of the
  release-publishing options over their defaults), whenever the target and the source
  of a merge both hold an array at the same key, reached through plain objects, the
  merged value there is the target's array followed by the source's. The theorem is
  about one step of such a merge, from any target; the source is a well-formed object.
\<close>

theorem customizer_concatenates:
  "wellFormed (JObj source) \<Longrightarrow> path \<noteq> [] \<Longrightarrow>
   atPath (JObj object) path = JArr xs \<Longrightarrow> atPath (JObj source) path = JArr ys \<Longrightarrow>
   atPath (mergeWith (Some mergeWithCustomizer) (JObj object) [JObj source]) path = JArr (xs @ ys)"
  by (simp add: concat_at_path)

text \<open>
  Claim C3, instances: the example of the specification; the \<open>ignore\<close> list of the
  release-publishing defaults extended by the user's; and, in the chain of \<open>setup\<close>, a
  list given in the top-level options and again in the module options.
\<close>

theorem customizer_concatenates_witness:
  "atPath (mergeWith (Some mergeWithCustomizer) (JObj [(''include'', JArr [JStr ''a''])])
            [JObj [(''include'', JArr [JStr ''b''])]]) [''include''] =
     JArr [JStr ''a'', JStr ''b''] \<and>
   atPath (mergeWith (Some mergeWithCustomizer) (JObj defaultsPublishRelease)
            [JObj [(''ignore'', JArr [JStr ''dist''])]]) [''ignore''] =
     JArr [JStr ''node_modules'', JStr ''.nuxt/dist/client/img'', JStr ''dist''] \<and>
   atPath (setupOptions (\<lambda>name. None) False
             (JObj [(''config'', JObj [(''ignoreErrors'', JArr [JStr ''a''])])])
             (JObj [(''config'', JObj [(''ignoreErrors'', JArr [JStr ''b''])])]))
     [''config'', ''ignoreErrors''] = JArr [JStr ''a'', JStr ''b'']"
proof -
  let ?top = "[(''config'', JObj [(''ignoreErrors'', JArr [JStr ''a''])])]"
  let ?module = "[(''config'', JObj [(''ignoreErrors'', JArr [JStr ''b''])])]"
  let ?target = "baseMergeFields (Some mergeWithCustomizer)
                   (baseMergeFields (Some mergeWithCustomizer) [] (defaults (\<lambda>name. None) False))
                   ?top"
  have one: "atPath (mergeWith (Some mergeWithCustomizer) (JObj [(''include'', JArr [JStr ''a''])])
            [JObj [(''include'', JArr [JStr ''b''])]]) [''include''] =
     JArr [JStr ''a'', JStr ''b'']"
    using customizer_concatenates[of "[(''include'', JArr [JStr ''b''])]" "[''include'']"
      "[(''include'', JArr [JStr ''a''])]" "[JStr ''a'']" "[JStr ''b'']"]
    by simp
  have two: "atPath (mergeWith (Some mergeWithCustomizer) (JObj defaultsPublishRelease)
            [JObj [(''ignore'', JArr [JStr ''dist''])]]) [''ignore''] =
     JArr [JStr ''node_modules'', JStr ''.nuxt/dist/client/img'', JStr ''dist'']"
    using customizer_concatenates[of "[(''ignore'', JArr [JStr ''dist''])]" "[''ignore'']"
      defaultsPublishRelease "[JStr ''node_modules'', JStr ''.nuxt/dist/client/img'']" "[JStr ''dist'']"]
    by (simp add: defaultsPublishRelease_def)
  have target: "atPath (JObj ?target) [''config'', ''ignoreErrors''] = JArr [JStr ''a'']"
    by code_simp
  have step: "atPath (mergeWith (Some mergeWithCustomizer) (JObj ?target) [JObj ?module])
                [''config'', ''ignoreErrors''] = JArr ([JStr ''a''] @ [JStr ''b''])"
    by (rule customizer_concatenates[OF _ _ target]) simp_all
  have off: "\<not> truthy (getProp (baseMergeFields (Some mergeWithCustomizer) ?target ?module)
                ''publishRelease'')"
    by code_simp
  have three: "atPath (setupOptions (\<lambda>name. None) False (JObj ?top) (JObj ?module))
     [''config'', ''ignoreErrors''] = JArr [JStr ''a'', JStr ''b'']"
    using step off by (simp add: setupOptions_objects Let_def del: atPath.simps)
  show ?thesis using one two three by blast
qed

subsection \<open>Claim C4: unrecognized integrations\<close>

text \<open>
  Claim C4. The validation loop of the client resolver and that of the server resolver,
  run over the keys of an integration map, keep in the map exactly the entries whose key
  is in the side's allow-list, unchanged and in order, and add to the log one warning
  for every other key, in the order of the keys; so no unrecognized key is kept, and
  none is dropped without a warning.

  In the client resolver: when the browser library loads and the tracing step does not
  throw (tracing is off, or \<open>config\<close> is an object), the resolver returns, its log ends
  with the warnings, and the integrations it returns are the kept keys whose toggle is
  truthy.

  In the server resolver, the cleaned map is what the instances are built from. When the
  server library loads, the runtime configuration can be read, the integrations library
  exports a class for every allowed name whose toggle is truthy, and the merged sources
  are \<open>undefined\<close> or objects that leave the key of the instances alone, the resolver
  returns, its log holds the warnings right after the log it was given, and the
  configuration holds one instance for every allowed key with a truthy toggle, in the
  order of the keys, and none for any other key.
\<close>

theorem unrecognized_integrations_dropped:
  "validateClientIntegrations (objectKeys integrations) (integrations, logger) =
     (filter (\<lambda>kv. fst kv \<in> set PLUGGABLE_INTEGRATIONS \<union> set BROWSER_INTEGRATIONS) integrations,
      logger @ map clientIntegrationWarning
        (filter (\<lambda>name. name \<notin> set PLUGGABLE_INTEGRATIONS \<union> set BROWSER_INTEGRATIONS)
           (objectKeys integrations))) \<and>
   validateServerIntegrations (objectKeys integrations) (integrations, logger) =
     (filter (\<lambda>kv. fst kv \<in> set SERVER_INTEGRATIONS) integrations,
      logger @ map serverIntegrationWarning
        (filter (\<lambda>name. name \<notin> set SERVER_INTEGRATIONS) (objectKeys integrations))) \<and>
   (browserApi w = Some apiMethods \<and>
    (truthy (tracing options) \<longrightarrow> (\<exists>cfg. config options = JObj cfg)) \<longrightarrow>
      (\<exists>result logger'.
         resolveClientOptions w nuxt options logger = Inr (result, logger') \<and>
         fst ` set (clientSideIntegrations result) =
           {name \<in> set (objectKeys (clientIntegrations options)).
              name \<in> set PLUGGABLE_INTEGRATIONS \<union> set BROWSER_INTEGRATIONS \<and>
              truthy (getProp (clientIntegrations options) name)} \<and>
         (\<exists>before. logger' = before @ map clientIntegrationWarning
            (filter (\<lambda>name. name \<notin> set PLUGGABLE_INTEGRATIONS \<union> set BROWSER_INTEGRATIONS)
               (objectKeys (clientIntegrations options)))))) \<and>
   (nodeApi w = Some apiMethods \<and> runtimeSources nuxt (runtimeConfigKey options) = Inr runtime \<and>
    list_all (\<lambda>source. source = JUndefined \<or>
                (\<exists>obj. source = JObj obj \<and> ''intergrations'' \<notin> fst ` set obj))
      ([config options, serverConfig options] @ runtime) \<and>
    list_all (\<lambda>name. name \<in> set (integrationClasses w))
      (filter (\<lambda>name. name \<in> set SERVER_INTEGRATIONS \<and>
                        truthy (getProp (serverIntegrations options) name))
         (objectKeys (serverIntegrations options))) \<longrightarrow>
      (\<exists>result after.
         resolveServerOptions w nuxt options logger =
           Inr (result, logger @ map serverIntegrationWarning
                  (filter (\<lambda>name. name \<notin> set SERVER_INTEGRATIONS)
                     (objectKeys (serverIntegrations options))) @ after) \<and>
         propOf (serverSideConfig result) ''intergrations'' =
           JArr (map (\<lambda>name. integrationInstance name (getProp (serverIntegrations options) name))
                   (filter (\<lambda>name. name \<in> set SERVER_INTEGRATIONS \<and>
                                     truthy (getProp (serverIntegrations options) name))
                      (objectKeys (serverIntegrations options))))))"
proof (intro conjI impI)
  show "validateClientIntegrations (objectKeys integrations) (integrations, logger) =
     (filter (\<lambda>kv. fst kv \<in> set PLUGGABLE_INTEGRATIONS \<union> set BROWSER_INTEGRATIONS) integrations,
      logger @ map clientIntegrationWarning
        (filter (\<lambda>name. name \<notin> set PLUGGABLE_INTEGRATIONS \<union> set BROWSER_INTEGRATIONS)
           (objectKeys integrations)))"
    by (rule validateClientIntegrations_keys)
next
  show "validateServerIntegrations (objectKeys integrations) (integrations, logger) =
     (filter (\<lambda>kv. fst kv \<in> set SERVER_INTEGRATIONS) integrations,
      logger @ map serverIntegrationWarning
        (filter (\<lambda>name. name \<notin> set SERVER_INTEGRATIONS) (objectKeys integrations)))"
    by (rule validateServerIntegrations_keys)
next
  assume "browserApi w = Some apiMethods \<and>
    (truthy (tracing options) \<longrightarrow> (\<exists>cfg. config options = JObj cfg))"
  then show "\<exists>result logger'.
         resolveClientOptions w nuxt options logger = Inr (result, logger') \<and>
         fst ` set (clientSideIntegrations result) =
           {name \<in> set (objectKeys (clientIntegrations options)).
              name \<in> set PLUGGABLE_INTEGRATIONS \<union> set BROWSER_INTEGRATIONS \<and>
              truthy (getProp (clientIntegrations options) name)} \<and>
         (\<exists>before. logger' = before @ map clientIntegrationWarning
            (filter (\<lambda>name. name \<notin> set PLUGGABLE_INTEGRATIONS \<union> set BROWSER_INTEGRATIONS)
               (objectKeys (clientIntegrations options))))"
    using resolveClientOptions_integrations[of w apiMethods options nuxt logger] by blast
next
  assume a: "nodeApi w = Some apiMethods \<and>
    runtimeSources nuxt (runtimeConfigKey options) = Inr runtime \<and>
    list_all (\<lambda>source. source = JUndefined \<or>
                (\<exists>obj. source = JObj obj \<and> ''intergrations'' \<notin> fst ` set obj))
      ([config options, serverConfig options] @ runtime) \<and>
    list_all (\<lambda>name. name \<in> set (integrationClasses w))
      (filter (\<lambda>name. name \<in> set SERVER_INTEGRATIONS \<and>
                        truthy (getProp (serverIntegrations options) name))
         (objectKeys (serverIntegrations options)))"
  show "\<exists>result after.
         resolveServerOptions w nuxt options logger =
           Inr (result, logger @ map serverIntegrationWarning
                  (filter (\<lambda>name. name \<notin> set SERVER_INTEGRATIONS)
                     (objectKeys (serverIntegrations options))) @ after) \<and>
         propOf (serverSideConfig result) ''intergrations'' =
           JArr (map (\<lambda>name. integrationInstance name (getProp (serverIntegrations options) name))
                   (filter (\<lambda>name. name \<in> set SERVER_INTEGRATIONS \<and>
                                     truthy (getProp (serverIntegrations options) name))
                      (objectKeys (serverIntegrations options))))"
    by (rule resolveServerOptions_result[of w apiMethods nuxt options runtime logger])
       (use a in simp_all)
qed

text \<open>
  Claim C4, instance: the client map \<open>{Vue: {}, Foo: {}}\<close> keeps \<open>Vue\<close> and drops \<open>Foo\<close>
  with a warning; the server side knows neither name; the client resolver returns \<open>Vue\<close>
  alone and logs the warning for \<open>Foo\<close>; and the server resolver, given
  \<open>{Dedupe: {}, Foo: {}}\<close>, logs the warning for \<open>Foo\<close> and builds \<open>Dedupe\<close> alone.
\<close>

theorem unrecognized_integrations_dropped_witness:
  "validateClientIntegrations [''Vue'', ''Foo''] ([(''Vue'', JObj []), (''Foo'', JObj [])], []) =
     ([(''Vue'', JObj [])], [clientIntegrationWarning ''Foo'']) \<and>
   validateServerIntegrations [''Vue'', ''Foo''] ([(''Vue'', JObj []), (''Foo'', JObj [])], []) =
     ([], [serverIntegrationWarning ''Vue'', serverIntegrationWarning ''Foo'']) \<and>
   (\<exists>result.
      resolveClientOptions exampleWorld exampleNuxt
        (exampleOptions\<lparr>clientIntegrations := [(''Vue'', JObj []), (''Foo'', JObj [])]\<rparr>) [] =
        Inr (result, [clientIntegrationWarning ''Foo'']) \<and>
      fst ` set (clientSideIntegrations result) = {''Vue''}) \<and>
   (\<exists>result.
      resolveServerOptions exampleWorld exampleNuxt
        (exampleOptions\<lparr>serverIntegrations := [(''Dedupe'', JObj []), (''Foo'', JObj [])]\<rparr>) [] =
        Inr (result, [serverIntegrationWarning ''Foo'']) \<and>
      propOf (serverSideConfig result) ''intergrations'' = JArr [JNew ''Dedupe'' []])"
proof -
  let ?client = "exampleOptions\<lparr>clientIntegrations := [(''Vue'', JObj []), (''Foo'', JObj [])]\<rparr>"
  let ?server = "exampleOptions\<lparr>serverIntegrations := [(''Dedupe'', JObj []), (''Foo'', JObj [])]\<rparr>"
  have b: "browserApi exampleWorld = Some [''init'', ''captureException'', ''captureMessage'']"
    and n: "nodeApi exampleWorld = Some [''init'', ''captureException'', ''captureMessage'']"
    by (simp_all add: exampleWorld_def)
  have tc: "truthy (tracing ?client) \<longrightarrow> (\<exists>cfg. config ?client = JObj cfg)"
    by (simp add: exampleOptions_def)
  have rs: "runtimeSources exampleNuxt (runtimeConfigKey ?server) = Inr []"
    by (simp add: runtimeSources_def exampleNuxt_def exampleOptions_def hasProp_def)
  have src: "list_all (\<lambda>source. source = JUndefined \<or>
                (\<exists>obj. source = JObj obj \<and> ''intergrations'' \<notin> fst ` set obj))
      ([config ?server, serverConfig ?server] @ [])"
    by (simp add: exampleOptions_def)
  have names: "filter (\<lambda>name. name \<in> set SERVER_INTEGRATIONS \<and>
                        truthy (getProp (serverIntegrations ?server) name))
         (objectKeys (serverIntegrations ?server)) = [''Dedupe'']"
    by (simp add: SERVER_INTEGRATIONS_def objectKeys_def getProp_def)
  have cls: "list_all (\<lambda>name. name \<in> set (integrationClasses exampleWorld))
      (filter (\<lambda>name. name \<in> set SERVER_INTEGRATIONS \<and>
                        truthy (getProp (serverIntegrations ?server) name))
         (objectKeys (serverIntegrations ?server)))"
    unfolding names by (simp add: exampleWorld_def)
  have ls: "snd (projr (resolveServerOptions exampleWorld exampleNuxt ?server [])) =
            [serverIntegrationWarning ''Foo'']"
    by code_simp
  have lcl: "snd (projr (resolveClientOptions exampleWorld exampleNuxt ?client [])) =
            [clientIntegrationWarning ''Foo'']"
    by code_simp
  note T = unrecognized_integrations_dropped[of "[(''Vue'', JObj []), (''Foo'', JObj [])]" "[]"
      exampleWorld "[''init'', ''captureException'', ''captureMessage'']" _ exampleNuxt]
  have loops: "validateClientIntegrations [''Vue'', ''Foo''] ([(''Vue'', JObj []), (''Foo'', JObj [])], []) =
     ([(''Vue'', JObj [])], [clientIntegrationWarning ''Foo'']) \<and>
   validateServerIntegrations [''Vue'', ''Foo''] ([(''Vue'', JObj []), (''Foo'', JObj [])], []) =
     ([], [serverIntegrationWarning ''Vue'', serverIntegrationWarning ''Foo''])"
    using T[of ?client "[]"]
    by (simp add: objectKeys_def PLUGGABLE_INTEGRATIONS_def BROWSER_INTEGRATIONS_def
          SERVER_INTEGRATIONS_def)
  have client: "\<exists>result.
      resolveClientOptions exampleWorld exampleNuxt ?client [] =
        Inr (result, [clientIntegrationWarning ''Foo'']) \<and>
      fst ` set (clientSideIntegrations result) = {''Vue''}"
  proof -
    from T[of ?client "[]"] b tc obtain result logger' where
      r: "resolveClientOptions exampleWorld exampleNuxt ?client [] = Inr (result, logger')"
      and k: "fst ` set (clientSideIntegrations result) =
           {name \<in> set (objectKeys (clientIntegrations ?client)).
              name \<in> set PLUGGABLE_INTEGRATIONS \<union> set BROWSER_INTEGRATIONS \<and>
              truthy (getProp (clientIntegrations ?client) name)}"
      by blast
    have "logger' = [clientIntegrationWarning ''Foo'']" using lcl r by simp
    moreover have "{name \<in> set (objectKeys (clientIntegrations ?client)).
              name \<in> set PLUGGABLE_INTEGRATIONS \<union> set BROWSER_INTEGRATIONS \<and>
              truthy (getProp (clientIntegrations ?client) name)} = {''Vue''}"
      by (auto simp: objectKeys_def PLUGGABLE_INTEGRATIONS_def BROWSER_INTEGRATIONS_def
            getProp_def exampleOptions_def)
    ultimately show ?thesis using r k by auto
  qed
  have server: "\<exists>result.
      resolveServerOptions exampleWorld exampleNuxt ?server [] =
        Inr (result, [serverIntegrationWarning ''Foo'']) \<and>
      propOf (serverSideConfig result) ''intergrations'' = JArr [JNew ''Dedupe'' []]"
  proof -
    from T[of ?server "[]"] n rs src cls obtain result after where
      r: "resolveServerOptions exampleWorld exampleNuxt ?server [] =
           Inr (result, [] @ map serverIntegrationWarning
                  (filter (\<lambda>name. name \<notin> set SERVER_INTEGRATIONS)
                     (objectKeys (serverIntegrations ?server))) @ after)"
      and i: "propOf (serverSideConfig result) ''intergrations'' =
           JArr (map (\<lambda>name. integrationInstance name (getProp (serverIntegrations ?server) name))
                   (filter (\<lambda>name. name \<in> set SERVER_INTEGRATIONS \<and>
                                     truthy (getProp (serverIntegrations ?server) name))
                      (objectKeys (serverIntegrations ?server))))"
      by blast
    have "propOf (serverSideConfig result) ''intergrations'' = JArr [JNew ''Dedupe'' []]"
      using i unfolding names by (simp add: getProp_def objectKeys_def)
    then show ?thesis using r ls by auto
  qed
  show ?thesis using loops client server by blast
qed

subsection \<open>Claim C5: \<open>captureException\<close> is always mocked\<close>

text \<open>
  Claim C5. When the lazy options are an object whose \<open>mockApiMethods\<close> is a list and
  whose \<open>injectMock\<close> is absent (the default is true) or true, the resolved
  \<open>mockApiMethods\<close> is the list of the requested methods that the library exports,
  followed by \<open>captureException\<close> unless it is already among them; in every case it
  contains \<open>captureException\<close>. That holds whether or not the library exports
  \<open>captureException\<close>, so in particular when it does.
\<close>

theorem captureException_forced:
  assumes "lazy options = JObj given"
    and "wellFormed (JObj given)"
    and "map_of given ''mockApiMethods'' = Some (JArr mockMethods)"
    and "map_of given ''injectMock'' = None \<or> map_of given ''injectMock'' = Some (JBool True)"
  shows "\<exists>mocked. propOf (lazy (fst (resolveLazyOptions options apiMethods logger)))
                     ''mockApiMethods'' = JArr mocked \<and>
                  JStr ''captureException'' \<in> set mocked \<and>
                  mocked = filter (apiIncludes apiMethods) mockMethods @
                    (if ''captureException'' \<in> set apiMethods \<and>
                        JStr ''captureException'' \<in> set mockMethods
                     then [] else [JStr ''captureException''])"
  using resolveLazyOptions_given_list[OF assms, of apiMethods logger] by auto

text \<open>
  Claim C5, instance: the request \<open>mockApiMethods: ['foo']\<close> against a library that
  exports \<open>captureException\<close> and no \<open>foo\<close> resolves to \<open>['captureException']\<close>.
\<close>

theorem captureException_forced_witness:
  "\<exists>mocked. propOf (lazy (fst (resolveLazyOptions
                       (exampleOptions\<lparr>lazy := JObj [(''mockApiMethods'', JArr [JStr ''foo''])]\<rparr>)
                       [''init'', ''captureException'', ''captureMessage''] [])))
                     ''mockApiMethods'' = JArr mocked \<and>
                  JStr ''captureException'' \<in> set mocked \<and>
                  mocked = [JStr ''captureException'']"
  using captureException_forced[of
      "exampleOptions\<lparr>lazy := JObj [(''mockApiMethods'', JArr [JStr ''foo''])]\<rparr>"
      "[(''mockApiMethods'', JArr [JStr ''foo''])]" "[JStr ''foo'']"
      "[''init'', ''captureException'', ''captureMessage'']" "[]"]
  by simp

subsection \<open>Claim C6: the build configurations\<close>

text \<open>
  Claim C6, as stated, lets every run of the \<open>webpack:config\<close> hook set \<open>devtool\<close> and add
  the plugin. When no release is resolved, the hook warns and returns before the loop:
  the build configurations stay as they were, \<open>devtool\<close> included.
\<close>

theorem devtool_untouched_without_release_counterexample:
  "webpackConfigHook exampleWorld exampleNuxt
     [[(''name'', JStr ''client''), (''devtool'', JBool False)],
      [(''name'', JStr ''server''), (''plugins'', JArr [])]]
     exampleOptions [] =
   Inr ([[(''name'', JStr ''client''), (''devtool'', JBool False)],
         [(''name'', JStr ''server''), (''plugins'', JArr [])]], [releaseWarning]) \<and>
   sourceMapStyle exampleOptions = JStr ''source-map''"
  by code_simp

text \<open>
  Claim C6, amended. Let the plugin package load and let the hook reach its test of
  \<open>release\<close> with the release-publishing options \<open>publishOptions\<close> (so line 103 has not
  thrown). If their \<open>release\<close> is truthy, the commit step, when it is switched on, does
  not throw, the list of build configurations is not empty and the \<open>plugins\<close> member of
  its last entry is an array or falsy, then the hook returns normally with nothing
  logged; every entry has \<open>devtool\<close> equal to the configured \<open>sourceMapStyle\<close>; the plugin
  list of the last entry is its former list followed by one plugin instance, built from
  the release-publishing options; and the plugin list of every other entry is as
  before. If their \<open>release\<close> is falsy, the hook returns with the build configurations
  as they were and the warning logged.
\<close>

theorem release_published_configs:
  assumes "webpackPluginLoads w"
    and "releaseOptions w nuxt options = Inr publishOptions"
  shows "(truthy (getProp publishOptions ''release'') \<and>
          (if envToBool (processEnv w ''SENTRY_AUTO_ATTACH_COMMITS'')
           then attachCommits (processEnv w) publishOptions
           else Inr publishOptions) = Inr pluginOptions \<and>
          webpackConfigs \<noteq> [] \<and>
          js_or (getProp (last webpackConfigs) ''plugins'') (JArr []) = JArr plugins \<longrightarrow>
            (\<exists>configs.
               webpackConfigHook w nuxt webpackConfigs options logger = Inr (configs, logger) \<and>
               map (\<lambda>c. getProp c ''devtool'') configs =
                 map (\<lambda>c. sourceMapStyle options) webpackConfigs \<and>
               getProp (last configs) ''plugins'' =
                 JArr (plugins @ [JNew ''SentryWebpackPlugin'' [JObj pluginOptions]]) \<and>
               map (\<lambda>c. getProp c ''plugins'') (butlast configs) =
                 map (\<lambda>c. getProp c ''plugins'') (butlast webpackConfigs))) \<and>
         (\<not> truthy (getProp publishOptions ''release'') \<longrightarrow>
            webpackConfigHook w nuxt webpackConfigs options logger =
              Inr (webpackConfigs, logger @ [releaseWarning]))"
proof (intro conjI impI)
  assume a: "truthy (getProp publishOptions ''release'') \<and>
          (if envToBool (processEnv w ''SENTRY_AUTO_ATTACH_COMMITS'')
           then attachCommits (processEnv w) publishOptions
           else Inr publishOptions) = Inr pluginOptions \<and>
          webpackConfigs \<noteq> [] \<and>
          js_or (getProp (last webpackConfigs) ''plugins'') (JArr []) = JArr plugins"
  let ?plugin = "JNew ''SentryWebpackPlugin'' [JObj pluginOptions]"
  let ?style = "sourceMapStyle options"
  let ?configs = "map (\<lambda>c. setProp c ''devtool'' ?style) (butlast webpackConfigs) @
                [setProp (setProp (last webpackConfigs) ''devtool'' ?style) ''plugins''
                   (JArr (plugins @ [?plugin]))]"
  have nonempty: "webpackConfigs \<noteq> []"
    and plugins: "js_or (getProp (last webpackConfigs) ''plugins'') (JArr []) = JArr plugins"
    using a by simp_all
  have hook: "webpackConfigHook w nuxt webpackConfigs options logger = Inr (?configs, logger)"
    using assms a addPluginToLast_result[OF nonempty plugins, of ?style ?plugin]
    by (simp add: webpackConfigHook_def)
  have "map (\<lambda>c. getProp c ''devtool'') ?configs =
        map (\<lambda>c. ?style) (butlast webpackConfigs @ [last webpackConfigs])"
    by (simp add: getProp_setProp comp_def)
  then have devtool: "map (\<lambda>c. getProp c ''devtool'') ?configs = map (\<lambda>c. ?style) webpackConfigs"
    using nonempty by simp
  have last: "getProp (last ?configs) ''plugins'' = JArr (plugins @ [?plugin])"
    by (simp add: getProp_setProp)
  have rest: "map (\<lambda>c. getProp c ''plugins'') (butlast ?configs) =
              map (\<lambda>c. getProp c ''plugins'') (butlast webpackConfigs)"
    by (simp add: butlast_append getProp_setProp comp_def)
  show "\<exists>configs.
               webpackConfigHook w nuxt webpackConfigs options logger = Inr (configs, logger) \<and>
               map (\<lambda>c. getProp c ''devtool'') configs =
                 map (\<lambda>c. sourceMapStyle options) webpackConfigs \<and>
               getProp (last configs) ''plugins'' =
                 JArr (plugins @ [JNew ''SentryWebpackPlugin'' [JObj pluginOptions]]) \<and>
               map (\<lambda>c. getProp c ''plugins'') (butlast configs) =
                 map (\<lambda>c. getProp c ''plugins'') (butlast webpackConfigs)"
    using hook devtool last rest by blast
next
  assume "\<not> truthy (getProp publishOptions ''release'')"
  then show "webpackConfigHook w nuxt webpackConfigs options logger =
              Inr (webpackConfigs, logger @ [releaseWarning])"
    using assms by (simp add: webpackConfigHook_def)
qed

text \<open>
  Claim C6, instances: two build configurations and a plugin already present in the
  last entry; once with a release set in \<open>config\<close>, once without any release.
\<close>

theorem release_published_configs_witness:
  "(\<exists>configs.
     webpackConfigHook exampleWorld exampleNuxt
       [[(''name'', JStr ''client''), (''devtool'', JBool False)],
        [(''name'', JStr ''server''), (''plugins'', JArr [JFn ''existing''])]]
       (exampleOptions\<lparr>config := JObj [(''release'', JStr ''v1'')]\<rparr>) [] = Inr (configs, []) \<and>
     map (\<lambda>c. getProp c ''devtool'') configs = [JStr ''source-map'', JStr ''source-map''] \<and>
     getProp (last configs) ''plugins'' =
       JArr [JFn ''existing'',
             JNew ''SentryWebpackPlugin''
               [JObj [(''urlPrefix'', JStr ''~/app/assets''),
                      (''include'', JArr [JStr ''.output/dist/server'', JStr ''.output/dist/client'']),
                      (''release'', JStr ''v1'')]]] \<and>
     map (\<lambda>c. getProp c ''plugins'') (butlast configs) = [JUndefined]) \<and>
   webpackConfigHook exampleWorld exampleNuxt
     [[(''name'', JStr ''client''), (''devtool'', JBool False)],
      [(''name'', JStr ''server''), (''plugins'', JArr [JFn ''existing''])]]
     exampleOptions [] =
     Inr ([[(''name'', JStr ''client''), (''devtool'', JBool False)],
           [(''name'', JStr ''server''), (''plugins'', JArr [JFn ''existing''])]],
          [releaseWarning])"
proof -
  let ?configs = "[[(''name'', JStr ''client''), (''devtool'', JBool False)],
                   [(''name'', JStr ''server''), (''plugins'', JArr [JFn ''existing''])]]"
  let ?released = "[(''urlPrefix'', JStr ''~/app/assets''),
                 (''include'', JArr [JStr ''.output/dist/server'', JStr ''.output/dist/client'']),
                 (''release'', JStr ''v1'')]"
  let ?unreleased = "[(''urlPrefix'', JStr ''~/app/assets''),
                 (''include'', JArr [JStr ''.output/dist/server'', JStr ''.output/dist/client'']),
                 (''release'', JUndefined)]"
  have h1: "webpackPluginLoads exampleWorld" by (simp add: exampleWorld_def)
  have r: "releaseOptions exampleWorld exampleNuxt
             (exampleOptions\<lparr>config := JObj [(''release'', JStr ''v1'')]\<rparr>) = Inr ?released"
    by code_simp
  have u: "releaseOptions exampleWorld exampleNuxt exampleOptions = Inr ?unreleased"
    by code_simp
  have e: "envToBool (processEnv exampleWorld ''SENTRY_AUTO_ATTACH_COMMITS'') = False"
    by (simp add: exampleWorld_def envToBool_def)
  have first: "\<exists>configs.
     webpackConfigHook exampleWorld exampleNuxt ?configs
       (exampleOptions\<lparr>config := JObj [(''release'', JStr ''v1'')]\<rparr>) [] = Inr (configs, []) \<and>
     map (\<lambda>c. getProp c ''devtool'') configs = [JStr ''source-map'', JStr ''source-map''] \<and>
     getProp (last configs) ''plugins'' =
       JArr [JFn ''existing'', JNew ''SentryWebpackPlugin'' [JObj ?released]] \<and>
     map (\<lambda>c. getProp c ''plugins'') (butlast configs) = [JUndefined]"
    using release_published_configs[OF h1 r, of ?released ?configs "[JFn ''existing'']" "[]"] e
    by (simp add: exampleOptions_def getProp_def js_or_def)
  have second: "webpackConfigHook exampleWorld exampleNuxt ?configs exampleOptions [] =
     Inr (?configs, [releaseWarning])"
    using release_published_configs[OF h1 u, of ?unreleased ?configs "[]" "[]"]
    by (simp add: getProp_def)
  show ?thesis using first second by blast
qed

subsection \<open>Claim C7: no release\<close>

text \<open>
  Claim C7. Let the plugin package have loaded, \<open>config\<close> be an object and the
  release-publishing options a boolean or a well-formed object. When no release is
  resolved (\<open>config.release\<close> is falsy, the options carry no truthy \<open>release\<close>, and
  \<open>resolveRelease\<close> resolves to nothing truthy), the hook returns normally: the build
  configurations are untouched, so no plugin is registered, and one warning is added to
  the log.
\<close>

theorem no_release_warns_and_returns:
  assumes "webpackPluginLoads w"
    and "config options = JObj cfg"
    and "publishRelease options = JBool b \<or>
         (\<exists>obj. publishRelease options = JObj obj \<and> wellFormed (publishRelease options))"
    and "\<not> truthy (getProp cfg ''release'')"
    and "\<not> truthy (propOf (publishRelease options) ''release'')"
    and "resolveRelease w options = Inr resolved"
    and "\<not> truthy resolved"
  shows "webpackConfigHook w nuxt webpackConfigs options logger =
           Inr (webpackConfigs, logger @ [releaseWarning])"
proof -
  obtain publishOptions where
    "releaseOptions w nuxt options = Inr publishOptions"
    "getProp publishOptions ''release'' =
       js_or (getProp cfg ''release'')
         (js_or (propOf (publishRelease options) ''release'') resolved)"
    using releaseOptions_release[OF assms(3,2,6)] by blast
  then show ?thesis
    using assms(1,4,5,7) by (simp add: webpackConfigHook_def js_or_falsy)
qed

text \<open>
  Claim C7, instance: \<open>publishRelease: true\<close>, no release in the configuration, and a
  command-line tool that proposes no version.
\<close>

theorem no_release_warns_and_returns_witness:
  "webpackConfigHook exampleWorld exampleNuxt
     [[(''name'', JStr ''client''), (''devtool'', JBool False)],
      [(''name'', JStr ''server''), (''plugins'', JArr [])]]
     exampleOptions [] =
   Inr ([[(''name'', JStr ''client''), (''devtool'', JBool False)],
         [(''name'', JStr ''server''), (''plugins'', JArr [])]], [releaseWarning])"
  using no_release_warns_and_returns[of exampleWorld exampleOptions
      "[(''environment'', JStr ''production'')]" True JUndefined exampleNuxt
      "[[(''name'', JStr ''client''), (''devtool'', JBool False)],
        [(''name'', JStr ''server''), (''plugins'', JArr [])]]" "[]"]
  by (simp add: exampleWorld_def exampleOptions_def resolveRelease_def getProp_def hasProp_def)

subsection \<open>Claim C8: initialization happens once\<close>

text \<open>
  Claim C8. Let \<open>process.sentry\<close> not be set. If an invocation of the
  server-initialization hook completes, the marker is set; every later invocation,
  whatever its arguments, returns at once with the state and the log unchanged; and the
  first invocation called \<open>Sentry.init\<close> exactly once if \<open>canInitialize\<close> holds, and
  not at all otherwise. So two invocations activate the reporting client once. And the
  first invocation does complete when the server library loads, the runtime
  configuration can be read, the merged sources are \<open>undefined\<close> or objects, and the
  integrations library exports a class for every allowed name whose toggle is truthy.
\<close>

theorem initializeServerSentry_idempotent:
  assumes "\<not> processSentry st"
  shows "(initializeServerSentry w nuxt options (st, logger) = Inr (st', logger') \<longrightarrow>
            processSentry st' \<and>
            (\<forall>w2 nuxt2 options2 logger2.
               initializeServerSentry w2 nuxt2 options2 (st', logger2) = Inr (st', logger2)) \<and>
            (canInitialize options \<longrightarrow>
               (\<exists>sentryConfig. sentryInits st' = sentryInits st @ [sentryConfig])) \<and>
            (\<not> canInitialize options \<longrightarrow> sentryInits st' = sentryInits st)) \<and>
         (nodeApi w = Some apiMethods \<and>
          runtimeSources nuxt (runtimeConfigKey options) = Inr runtime \<and>
          list_all (\<lambda>source. source = JUndefined \<or> (\<exists>obj. source = JObj obj))
            ([config options, serverConfig options] @ runtime) \<and>
          list_all (\<lambda>name. name \<in> set (integrationClasses w))
            (filter (\<lambda>name. name \<in> set SERVER_INTEGRATIONS \<and>
                              truthy (getProp (serverIntegrations options) name))
               (objectKeys (serverIntegrations options))) \<longrightarrow>
            (\<exists>st1 logger1.
               initializeServerSentry w nuxt options (st, logger) = Inr (st1, logger1)))"
proof (intro conjI impI)
  assume first: "initializeServerSentry w nuxt options (st, logger) = Inr (st', logger')"
  then have "\<exists>sentryConfig. st' = st\<lparr>processSentry := True,
      sentryInits :=
        (if canInitialize options then sentryInits st @ [sentryConfig] else sentryInits st)\<rparr>"
    using assms
    by (auto simp: initializeServerSentry_def Let_def split: sum.splits prod.splits)
  then obtain sentryConfig where st': "st' = st\<lparr>processSentry := True,
      sentryInits :=
        (if canInitialize options then sentryInits st @ [sentryConfig] else sentryInits st)\<rparr>"
    by blast
  show "processSentry st'" by (simp add: st')
  show "\<forall>w2 nuxt2 options2 logger2.
          initializeServerSentry w2 nuxt2 options2 (st', logger2) = Inr (st', logger2)"
    by (simp add: st' initializeServerSentry_def)
  show "\<exists>sentryConfig. sentryInits st' = sentryInits st @ [sentryConfig]"
    if "canInitialize options" using that by (simp add: st')
  show "sentryInits st' = sentryInits st" if "\<not> canInitialize options"
    using that by (simp add: st')
next
  assume a: "nodeApi w = Some apiMethods \<and>
          runtimeSources nuxt (runtimeConfigKey options) = Inr runtime \<and>
          list_all (\<lambda>source. source = JUndefined \<or> (\<exists>obj. source = JObj obj))
            ([config options, serverConfig options] @ runtime) \<and>
          list_all (\<lambda>name. name \<in> set (integrationClasses w))
            (filter (\<lambda>name. name \<in> set SERVER_INTEGRATIONS \<and>
                              truthy (getProp (serverIntegrations options) name))
               (objectKeys (serverIntegrations options)))"
  have "\<exists>result logger'. resolveServerOptions w nuxt options logger = Inr (result, logger')"
    by (rule resolveServerOptions_returns[of w apiMethods nuxt options runtime logger])
       (use a in simp_all)
  then show "\<exists>st1 logger1.
               initializeServerSentry w nuxt options (st, logger) = Inr (st1, logger1)"
    using assms by (auto simp: initializeServerSentry_def Let_def)
qed

text \<open>
  Claim C8, instance: the first invocation on a fresh process activates the client once
  and sets the marker; the second one changes nothing.
\<close>

theorem initializeServerSentry_idempotent_witness:
  "\<exists>st' logger'.
     initializeServerSentry exampleWorld exampleNuxt exampleOptions
       (\<lparr>processSentry = False, sentryInits = [], sentryCloses = 0\<rparr>, []) = Inr (st', logger') \<and>
     processSentry st' \<and>
     initializeServerSentry exampleWorld exampleNuxt exampleOptions (st', logger') =
       Inr (st', logger') \<and>
     (\<exists>sentryConfig. sentryInits st' = [sentryConfig])"
proof -
  let ?st = "\<lparr>processSentry = False, sentryInits = [], sentryCloses = 0\<rparr>"
  have h1: "\<not> processSentry ?st"
    by simp
  have h2: "nodeApi exampleWorld = Some [''init'', ''captureException'', ''captureMessage'']"
    by (simp add: exampleWorld_def)
  have h3: "runtimeSources exampleNuxt (runtimeConfigKey exampleOptions) = Inr []"
    by (simp add: runtimeSources_def exampleNuxt_def exampleOptions_def hasProp_def)
  have h4: "list_all (\<lambda>source. source = JUndefined \<or> (\<exists>obj. source = JObj obj))
            ([config exampleOptions, serverConfig exampleOptions] @ [])"
    by (simp add: exampleOptions_def)
  have h5: "list_all (\<lambda>name. name \<in> set (integrationClasses exampleWorld))
            (filter (\<lambda>name. name \<in> set SERVER_INTEGRATIONS \<and>
                              truthy (getProp (serverIntegrations exampleOptions) name))
               (objectKeys (serverIntegrations exampleOptions)))"
    by (simp add: exampleWorld_def exampleOptions_def SERVER_INTEGRATIONS_def objectKeys_def
          getProp_def)
  have c: "canInitialize exampleOptions"
    by (simp add: canInitialize_def exampleOptions_def)
  note T = initializeServerSentry_idempotent[OF h1, of exampleWorld exampleNuxt exampleOptions "[]"]
  from T[of _ _ "[''init'', ''captureException'', ''captureMessage'']" "[]"] h2 h3 h4 h5
  obtain st1 logger1 where
    first: "initializeServerSentry exampleWorld exampleNuxt exampleOptions (?st, []) =
              Inr (st1, logger1)"
    by blast
  from T[of st1 logger1 "[''init'', ''captureException'', ''captureMessage'']" "[]"] first c
  have "processSentry st1 \<and>
        initializeServerSentry exampleWorld exampleNuxt exampleOptions (st1, logger1) =
          Inr (st1, logger1) \<and>
        (\<exists>sentryConfig. sentryInits st1 = [sentryConfig])"
    by simp
  then show ?thesis using first by blast
qed

subsection \<open>Claim C9: the server configuration\<close>

text \<open>
  Claim C9 has the server resolver build an instance for every validated toggle with a
  truthy value and return a configuration that contains the instances. The allow-list
  of the server side names \<open>Modules\<close>, and the resolver takes its classes from
  \<open>@sentry/integrations\<close>, which exports none of that name: with the toggle
  \<open>{Modules: {}}\<close> the validation keeps the key, \<open>new Integrations[name]()\<close> throws, and
  the promise of the resolver is rejected. Where the instances are built, as with the
  default toggles, the configuration holds them under the key \<open>intergrations\<close>, and has
  nothing under \<open>integrations\<close>, the key that the client resolver returns and the
  reporting library reads.
\<close>

theorem modules_toggle_rejects_resolver:
  "''Modules'' \<in> set SERVER_INTEGRATIONS \<and>
   ''Modules'' \<notin> set (integrationClasses exampleWorld) \<and>
   validateServerIntegrations [''Modules''] ([(''Modules'', JObj [])], []) =
     ([(''Modules'', JObj [])], []) \<and>
   resolveServerOptions exampleWorld exampleNuxt
     (exampleOptions\<lparr>serverIntegrations := [(''Modules'', JObj [])]\<rparr>) [] = Inl TypeError \<and>
   serverSideConfig (fst (projr (resolveServerOptions exampleWorld exampleNuxt exampleOptions []))) =
     JObj [(''dsn'', JStr ''https://key@sentry.example/1''),
           (''intergrations'',
            JArr [JNew ''Dedupe'' [], JNew ''ExtraErrorData'' [], JNew ''RewriteFrames'' [],
                  JNew ''Transaction'' []]),
           (''environment'', JStr ''production'')] \<and>
   propOf (serverSideConfig
             (fst (projr (resolveServerOptions exampleWorld exampleNuxt exampleOptions []))))
     ''integrations'' = JUndefined"
  by code_simp

subsection \<open>Claim C10: the default of \<open>initialize\<close>\<close>

text \<open>
  Claim C10. Whatever the environment holds, the default of \<open>initialize\<close> is true; when
  neither the top-level options nor the module options have the key, the resolved flag
  is true; and module options with \<open>initialize: false\<close>, over top-level options without
  the key, resolve it to false.
\<close>

theorem initialize_default_true:
  "getProp (defaults env devMode) ''initialize'' = JBool True \<and>
   (''initialize'' \<notin> fst ` set sentry \<union> fst ` set moduleOptions \<longrightarrow>
      propOf (setupOptions env devMode (JObj sentry) (JObj moduleOptions)) ''initialize'' =
        JBool True) \<and>
   (''initialize'' \<notin> fst ` set sentry \<and> distinct (map fst moduleOptions) \<and>
    map_of moduleOptions ''initialize'' = Some (JBool False) \<longrightarrow>
      propOf (setupOptions env devMode (JObj sentry) (JObj moduleOptions)) ''initialize'' =
        JBool False)"
proof (intro conjI impI)
  show "getProp (defaults env devMode) ''initialize'' = JBool True"
    by (simp add: defaults_def getProp_def)
next
  assume "''initialize'' \<notin> fst ` set sentry \<union> fst ` set moduleOptions"
  then show "propOf (setupOptions env devMode (JObj sentry) (JObj moduleOptions)) ''initialize'' =
        JBool True"
    by (simp add: setupOptions_objects Let_def getProp_setProp getProp_baseMergeFields_other
          defaults_initialize_merged)
next
  assume a: "''initialize'' \<notin> fst ` set sentry \<and> distinct (map fst moduleOptions) \<and>
             map_of moduleOptions ''initialize'' = Some (JBool False)"
  have target: "map_of (baseMergeFields (Some mergeWithCustomizer)
                         (baseMergeFields (Some mergeWithCustomizer) [] (defaults env devMode))
                         sentry) ''initialize'' = Some (JBool True)"
    using a baseMergeFields_key[OF defaults_keys_distinct, of env devMode
        "''initialize''" "JBool True" "Some mergeWithCustomizer" "[]"]
    by (simp add: baseMergeFields_other customized_def defaults_def)
  have "getProp (baseMergeFields (Some mergeWithCustomizer)
                      (baseMergeFields (Some mergeWithCustomizer)
                         (baseMergeFields (Some mergeWithCustomizer) [] (defaults env devMode))
                         sentry) moduleOptions) ''initialize'' =
        baseMergeValue (Some mergeWithCustomizer)
          (map_of (baseMergeFields (Some mergeWithCustomizer)
                         (baseMergeFields (Some mergeWithCustomizer) [] (defaults env devMode))
                         sentry) ''initialize'') (JBool False)"
    using a by (simp add: getProp_baseMergeFields_key)
  also have "\<dots> = JBool False"
    by (simp add: target customized_def)
  finally show "propOf (setupOptions env devMode (JObj sentry) (JObj moduleOptions)) ''initialize'' =
        JBool False"
    by (simp add: setupOptions_objects Let_def getProp_setProp)
qed

text \<open>
  Claim C10, instance: every environment variable reads \<open>false\<close>, and still the flag is
  true unless the module options say otherwise.
\<close>

theorem initialize_default_true_witness:
  "getProp (defaults (\<lambda>name. Some ''false'') False) ''initialize'' = JBool True \<and>
   propOf (setupOptions (\<lambda>name. Some ''false'') False (JObj [])
             (JObj [(''dsn'', JStr ''https://key@sentry.example/1'')])) ''initialize'' = JBool True \<and>
   propOf (setupOptions (\<lambda>name. Some ''false'') False (JObj [])
             (JObj [(''initialize'', JBool False)])) ''initialize'' = JBool False"
  using initialize_default_true[of "\<lambda>name. Some ''false''" False "[]"
      "[(''dsn'', JStr ''https://key@sentry.example/1'')]"]
    initialize_default_true[of "\<lambda>name. Some ''false''" False "[]"
      "[(''initialize'', JBool False)]"]
  by simp


end
